theory Spec2Isabelle
  imports Complex_Main "HOL-Library.Log_Nat"
begin

section \<open>JavaScript values used by the policy engine\<close>

text \<open>
  A JavaScript number is a finite value, one of the two infinities, or NaN. Finite
  values are carried as reals: every double is a real, and the comparisons \<open><\<close> and
  \<open>>=\<close> of two doubles agree with the comparisons of their real values. The sign of
  zero is not kept (\<open>Fin 0\<close> stands for \<open>+0\<close> and \<open>-0\<close>, which compare equal and are
  both falsy).
\<close>

datatype jsnum = NaN | NInf | Fin real | PInf

subsection \<open>Rounding to a double\<close>

text \<open>
  The result of an arithmetic operation, and the value of a decimal literal, is the
  exact result rounded to the nearest IEEE 754 binary64 number, a tie going to the even
  significand. \<open>expo x\<close> is the binary exponent of \<open>x > 0\<close>, the \<open>e\<close> with
  \<open>2^e <= x < 2^(e+1)\<close>; the doubles around \<open>x\<close> are the multiples of
  \<open>2^(max e (-1022) - 52)\<close> (53 significant bits, subnormal below \<open>2^-1022\<close>); a result
  that rounds to \<open>2^1024\<close> or more is an infinity.
\<close>

definition expo :: "real \<Rightarrow> int" where
  "expo x =
     (if 1 \<le> x then int (floorlog 2 (nat \<lfloor>x\<rfloor>)) - 1
      else - int (floorlog 2 (nat (\<lceil>1 / x\<rceil> - 1))))"

definition ulp_exp :: "real \<Rightarrow> int" where
  "ulp_exp x = max (expo x) (- 1022) - 52"

text \<open>Rounding to the nearest integer, a tie going to the even one.\<close>

definition rne :: "real \<Rightarrow> int" where
  "rne q =
     (let f = \<lfloor>q\<rfloor>; r = q - of_int f
      in if r < 1 / 2 then f else if 1 / 2 < r then f + 1
         else if even f then f else f + 1)"

definition rnd_pos :: "real \<Rightarrow> real" where
  "rnd_pos x = of_int (rne (x / 2 powi ulp_exp x)) * 2 powi ulp_exp x"

definition rnd :: "real \<Rightarrow> jsnum" where
  "rnd x =
     (if x = 0 then Fin 0
      else let y = rnd_pos \<bar>x\<bar>
           in if 2 ^ 1024 \<le> y then (if 0 < x then PInf else NInf)
              else Fin (sgn x * y))"

text \<open>
  The number a decimal literal of the source denotes. The literals \<open>6.3\<close> and \<open>0.3\<close>
  of the default rules are not doubles themselves; every other literal of the program
  is.
\<close>

definition lit :: "real \<Rightarrow> jsnum" where
  "lit x = rnd x"

subsection \<open>Comparison\<close>

text \<open>\<open>a < b\<close>: false as soon as one side is NaN.\<close>

fun js_lt :: "jsnum \<Rightarrow> jsnum \<Rightarrow> bool" where
  "js_lt NaN b = False"
| "js_lt a NaN = False"
| "js_lt (Fin x) (Fin y) = (x < y)"
| "js_lt a NInf = False"
| "js_lt NInf b = True"
| "js_lt PInf b = False"
| "js_lt (Fin x) PInf = True"

text \<open>\<open>a >= b\<close>: false as soon as one side is NaN, otherwise the negation of \<open>a < b\<close>.\<close>

fun js_ge :: "jsnum \<Rightarrow> jsnum \<Rightarrow> bool" where
  "js_ge NaN b = False"
| "js_ge a NaN = False"
| "js_ge a b = (\<not> js_lt a b)"

subsection \<open>Values\<close>

text \<open>
  The values a budget or a threshold field can hold, in a form field, in the store or
  after a backup import: \<open>undefined\<close> (a missing field or argument), \<open>null\<close>, a
  boolean, a number, a string, an array, or a plain object (\<open>JObj\<close>: an object that
  does not shadow \<open>toString\<close> and \<open>valueOf\<close>). A string is a list of code units below
  256.
\<close>

datatype jsval =
  JUndefined | JNull | JBool bool | JNum jsnum | JStr string | JArr "jsval list" | JObj

subsection \<open>String to number\<close>

text \<open>
  \<open>StringToNumber\<close>: white space is trimmed; the empty string is 0; then a binary,
  octal or hexadecimal integer literal without sign, or an optionally signed decimal
  literal (\<open>Infinity\<close>, or digits with an optional fraction and exponent); anything
  else is NaN.
\<close>

definition is_ws :: "char \<Rightarrow> bool" where
  "is_ws c = ((of_char c :: nat) \<in> {9, 10, 11, 12, 13, 32, 160})"

definition trim_ws :: "string \<Rightarrow> string" where
  "trim_ws s = rev (dropWhile is_ws (rev (dropWhile is_ws s)))"

definition digit_of :: "char \<Rightarrow> nat option" where
  "digit_of c =
     (let n = (of_char c :: nat)
      in if 48 \<le> n \<and> n \<le> 57 then Some (n - 48)
         else if 97 \<le> n \<and> n \<le> 102 then Some (n - 87)
         else if 65 \<le> n \<and> n \<le> 70 then Some (n - 55)
         else None)"

definition is_digit :: "nat \<Rightarrow> char \<Rightarrow> bool" where
  "is_digit b c = (case digit_of c of None \<Rightarrow> False | Some d \<Rightarrow> d < b)"

definition digits_value :: "nat \<Rightarrow> string \<Rightarrow> nat" where
  "digits_value b ds =
     foldl (\<lambda>a c. a * b + (case digit_of c of None \<Rightarrow> 0 | Some d \<Rightarrow> d)) 0 ds"

text \<open>The optional exponent part: \<open>None\<close> when the rest of the text is not one.\<close>

definition parse_exponent :: "string \<Rightarrow> int option" where
  "parse_exponent s =
     (case s of
        [] \<Rightarrow> Some 0
      | c # r \<Rightarrow>
          if c = CHR ''e'' \<or> c = CHR ''E''
          then (let neg = (r \<noteq> [] \<and> hd r = CHR ''-'');
                    ds = (if r \<noteq> [] \<and> (hd r = CHR ''-'' \<or> hd r = CHR ''+'') then tl r else r)
                in if ds \<noteq> [] \<and> list_all (is_digit 10) ds
                   then Some ((if neg then - 1 else 1) * int (digits_value 10 ds))
                   else None)
          else None)"

definition parse_unsigned_decimal :: "string \<Rightarrow> jsnum" where
  "parse_unsigned_decimal s =
     (if s = ''Infinity'' then PInf
      else let ip = takeWhile (is_digit 10) s;
               r1 = dropWhile (is_digit 10) s;
               dot = (r1 \<noteq> [] \<and> hd r1 = CHR ''.'');
               fp = (if dot then takeWhile (is_digit 10) (tl r1) else []);
               r2 = (if dot then dropWhile (is_digit 10) (tl r1) else r1)
           in if ip = [] \<and> fp = [] then NaN
              else case parse_exponent r2 of
                     None \<Rightarrow> NaN
                   | Some e \<Rightarrow>
                       rnd (real (digits_value 10 (ip @ fp)) * 10 powi (e - int (length fp))))"

definition parse_non_decimal :: "string \<Rightarrow> jsnum option" where
  "parse_non_decimal s =
     (case s of
        z # p # ds \<Rightarrow>
          (let b = (if p = CHR ''x'' \<or> p = CHR ''X'' then 16
                    else if p = CHR ''o'' \<or> p = CHR ''O'' then 8
                    else if p = CHR ''b'' \<or> p = CHR ''B'' then 2 else (0::nat))
           in if z = CHR ''0'' \<and> b \<noteq> 0 \<and> ds \<noteq> [] \<and> list_all (is_digit b) ds
              then Some (rnd (real (digits_value b ds))) else None)
      | _ \<Rightarrow> None)"

fun js_neg :: "jsnum \<Rightarrow> jsnum" where
  "js_neg NaN = NaN"
| "js_neg NInf = PInf"
| "js_neg (Fin x) = Fin (- x)"
| "js_neg PInf = NInf"

definition StringToNumber :: "string \<Rightarrow> jsnum" where
  "StringToNumber str =
     (let s = trim_ws str
      in if s = [] then Fin 0
         else case parse_non_decimal s of
                Some v \<Rightarrow> v
              | None \<Rightarrow>
                  if hd s = CHR ''-'' then js_neg (parse_unsigned_decimal (tl s))
                  else if hd s = CHR ''+'' then parse_unsigned_decimal (tl s)
                  else parse_unsigned_decimal s)"

subsection \<open>Conversions\<close>

text \<open>
  \<open>Number(v)\<close>, the conversion every arithmetic operator applies to its operands. An
  array converts through its string, the elements joined by commas (\<open>undefined\<close> and
  \<open>null\<close> as the empty string): the empty array is 0, an array of one element
  converts as that element's string, and a longer one is NaN because of the comma. The
  string of a number converts back to that number.
\<close>

fun Number :: "jsval \<Rightarrow> jsnum" where
  "Number JUndefined = NaN"
| "Number JNull = Fin 0"
| "Number (JBool b) = (if b then Fin 1 else Fin 0)"
| "Number (JNum n) = n"
| "Number (JStr s) = StringToNumber s"
| "Number JObj = NaN"
| "Number (JArr []) = Fin 0"
| "Number (JArr [JUndefined]) = Fin 0"
| "Number (JArr [JNull]) = Fin 0"
| "Number (JArr [JBool b]) = NaN"
| "Number (JArr [JNum n]) = n"
| "Number (JArr [JStr s]) = StringToNumber s"
| "Number (JArr [JArr ys]) = Number (JArr ys)"
| "Number (JArr [JObj]) = NaN"
| "Number (JArr (x # y # zs)) = NaN"

fun truthy :: "jsval \<Rightarrow> bool" where
  "truthy JUndefined = False"
| "truthy JNull = False"
| "truthy (JBool b) = b"
| "truthy (JNum n) = (n \<noteq> NaN \<and> n \<noteq> Fin 0)"
| "truthy (JStr s) = (s \<noteq> [])"
| "truthy (JArr xs) = True"
| "truthy JObj = True"

text \<open>\<open>a || b\<close> yields \<open>a\<close> itself when it is truthy, otherwise \<open>b\<close>.\<close>

definition js_or :: "jsval \<Rightarrow> jsval \<Rightarrow> jsval" where
  "js_or a b = (if truthy a then a else b)"

section \<open>Rules: rate tiers and deposit policy\<close>

text \<open>\<open>max = null\<close> marks the unbounded top tier.\<close>

record tier =
  tier_min :: jsnum
  tier_max :: "jsnum option"
  tier_rate :: jsnum

record small_band =
  small_upTo :: jsnum
  small_type :: string
  small_ratio :: jsnum

record mid_band =
  mid_from :: jsnum
  mid_to :: jsnum
  mid_type :: string
  mid_ratio :: jsnum

record large_band =
  large_from :: jsnum
  large_type :: string
  large_ratio :: jsnum

record depositPolicy =
  small :: small_band
  mid :: mid_band
  large :: large_band

record rules =
  tiers :: "tier list"
  depositPolicy :: depositPolicy
  priorityWindowMin :: nat

definition DEFAULT_MDTG_RULES :: rules where
  "DEFAULT_MDTG_RULES =
     \<lparr> tiers =
         [ \<lparr> tier_min = Fin 0, tier_max = Some (Fin 300), tier_rate = Fin 6.5 \<rparr>,
           \<lparr> tier_min = Fin 300, tier_max = Some (Fin 500), tier_rate = lit 6.3 \<rparr>,
           \<lparr> tier_min = Fin 500, tier_max = None, tier_rate = Fin 6.0 \<rparr> ],
       depositPolicy =
         \<lparr> small = \<lparr> small_upTo = Fin 300, small_type = ''deposit'', small_ratio = lit 0.3 \<rparr>,
           mid = \<lparr> mid_from = Fin 300, mid_to = Fin 500, mid_type = ''deposit'',
                   mid_ratio = Fin 0.5 \<rparr>,
           large = \<lparr> large_from = Fin 500, large_type = ''full'', large_ratio = Fin 1.0 \<rparr> \<rparr>,
       priorityWindowMin = 30 \<rparr>"

section \<open>The resolvers of \<open>src/src/App.jsx\<close>\<close>

text \<open>
  A parameter with a default (\<open>rules = DEFAULT_MDTG_RULES\<close>) takes the default when the
  argument is omitted or \<open>undefined\<close>: the argument is a \<open>rules option\<close>.
\<close>

definition rules_or_default :: "rules option \<Rightarrow> rules" where
  "rules_or_default r = (case r of None \<Rightarrow> DEFAULT_MDTG_RULES | Some x \<Rightarrow> x)"

text \<open>\<open>Number(budgetRMB) || 0\<close>: NaN and zero give 0, every other number itself.\<close>

definition budget_number :: "jsval \<Rightarrow> jsnum" where
  "budget_number budgetRMB = Number (js_or (JNum (Number budgetRMB)) (JNum (Fin 0)))"

text \<open>
  The \<open>for (const t of rules.tiers)\<close> loop of \<open>mdtgRateOf\<close>: \<open>Some\<close> the rate returned
  from inside the loop, \<open>None\<close> when the loop runs to its end.
\<close>

fun rate_loop :: "jsnum \<Rightarrow> tier list \<Rightarrow> jsnum option" where
  "rate_loop n [] = None"
| "rate_loop n (t # ts) =
     (case tier_max t of
        None \<Rightarrow> if js_ge n (tier_min t) then Some (tier_rate t) else rate_loop n ts
      | Some m \<Rightarrow>
          if js_ge n (tier_min t) \<and> js_lt n m then Some (tier_rate t) else rate_loop n ts)"

text \<open>\<open>xs.at(-1)\<close>: the last element, \<open>undefined\<close> on the empty array.\<close>

definition at_last :: "'a list \<Rightarrow> 'a option" where
  "at_last xs = (if xs = [] then None else Some (last xs))"

definition mdtgRateOf :: "jsval \<Rightarrow> rules option \<Rightarrow> jsnum" where
  "mdtgRateOf budgetRMB rules_arg =
     (let rules = rules_or_default rules_arg;
          n = budget_number budgetRMB
      in case rate_loop n (tiers rules) of
           Some r \<Rightarrow> r
         | None \<Rightarrow> (case at_last (tiers rules) of None \<Rightarrow> Fin 6.0 | Some t \<Rightarrow> tier_rate t))"

record prepay =
  prepay_type :: string
  ratio :: jsnum

definition mdtgPrepayOf :: "jsval \<Rightarrow> rules option \<Rightarrow> prepay" where
  "mdtgPrepayOf budgetRMB rules_arg =
     (let rules = rules_or_default rules_arg;
          n = budget_number budgetRMB
      in if js_lt n (small_upTo (small (depositPolicy rules)))
         then \<lparr> prepay_type = ''deposit'', ratio = small_ratio (small (depositPolicy rules)) \<rparr>
         else if js_ge n (mid_from (mid (depositPolicy rules)))
                 \<and> js_lt n (mid_to (mid (depositPolicy rules)))
         then \<lparr> prepay_type = ''deposit'', ratio = mid_ratio (mid (depositPolicy rules)) \<rparr>
         else \<lparr> prepay_type = ''full'', ratio = Fin 1.0 \<rparr>)"

text \<open>
  The rate resolver in the spec's words: the first tier, in list order, with
  (\<open>max\<close> null and \<open>budget >= min\<close>) or (\<open>min <= budget < max\<close>); the last tier's
  rate when none matches; 6.0 on the empty list.
\<close>

definition tier_matches :: "jsnum \<Rightarrow> tier \<Rightarrow> bool" where
  "tier_matches n t =
     (case tier_max t of
        None \<Rightarrow> js_ge n (tier_min t)
      | Some m \<Rightarrow> js_ge n (tier_min t) \<and> js_lt n m)"

definition resolveRate_spec :: "jsnum \<Rightarrow> tier list \<Rightarrow> jsnum" where
  "resolveRate_spec n ts =
     (case find (tier_matches n) ts of
        Some t \<Rightarrow> tier_rate t
      | None \<Rightarrow> if ts = [] then Fin 6.0 else tier_rate (last ts))"

section \<open>Arithmetic of JavaScript numbers\<close>

text \<open>
  Sum, product and quotient of two finite numbers are the exact results rounded to a
  double. \<open>sgn_num\<close> is the sign of a number that is not NaN; \<open>signed_inf\<close> is the
  infinity of a sign, NaN for sign 0 (the result of \<open>0 * Infinity\<close> and of \<open>0 / 0\<close>).
\<close>

fun sgn_num :: "jsnum \<Rightarrow> real" where
  "sgn_num NaN = 0"
| "sgn_num NInf = - 1"
| "sgn_num (Fin x) = sgn x"
| "sgn_num PInf = 1"

definition signed_inf :: "real \<Rightarrow> jsnum" where
  "signed_inf s = (if s = 0 then NaN else if 0 < s then PInf else NInf)"

fun js_add :: "jsnum \<Rightarrow> jsnum \<Rightarrow> jsnum" where
  "js_add NaN b = NaN"
| "js_add a NaN = NaN"
| "js_add (Fin x) (Fin y) = rnd (x + y)"
| "js_add PInf NInf = NaN"
| "js_add NInf PInf = NaN"
| "js_add PInf b = PInf"
| "js_add a PInf = PInf"
| "js_add NInf b = NInf"
| "js_add a NInf = NInf"

fun js_mul :: "jsnum \<Rightarrow> jsnum \<Rightarrow> jsnum" where
  "js_mul NaN b = NaN"
| "js_mul a NaN = NaN"
| "js_mul (Fin x) (Fin y) = rnd (x * y)"
| "js_mul a b = signed_inf (sgn_num a * sgn_num b)"

text \<open>
  Division. A zero divisor is read as \<open>+0\<close>; the divisors of this program are the
  literal 100 and the number of \<open>total || 1\<close>.
\<close>

fun js_div :: "jsnum \<Rightarrow> jsnum \<Rightarrow> jsnum" where
  "js_div NaN b = NaN"
| "js_div a NaN = NaN"
| "js_div (Fin x) (Fin y) = (if y = 0 then signed_inf (sgn x) else rnd (x / y))"
| "js_div (Fin x) b = Fin 0"
| "js_div a (Fin y) = (if y = 0 then a else signed_inf (sgn_num a * sgn y))"
| "js_div a b = NaN"

text \<open>
  \<open>Math.round\<close>: the nearest integer, a tie going towards plus infinity; the result is
  a double whenever the argument is one, so nothing is rounded twice.
\<close>

fun Math_round :: "jsnum \<Rightarrow> jsnum" where
  "Math_round (Fin x) = Fin (of_int \<lfloor>x + 1 / 2\<rfloor>)"
| "Math_round a = a"

fun Math_min :: "jsnum \<Rightarrow> jsnum \<Rightarrow> jsnum" where
  "Math_min NaN b = NaN"
| "Math_min a NaN = NaN"
| "Math_min a b = (if js_lt b a then b else a)"

fun Math_max :: "jsnum \<Rightarrow> jsnum \<Rightarrow> jsnum" where
  "Math_max NaN b = NaN"
| "Math_max a NaN = NaN"
| "Math_max a b = (if js_lt a b then b else a)"

section \<open>Events, participants and the aggregator\<close>

record participant =
  p_id :: string
  p_name :: string
  p_handle :: string
  p_wish :: string
  reserveRMB :: jsval
  depositPaid :: bool
  prepayType :: string
  status :: string
  p_note :: string

record thresholds =
  headcount :: jsval

record event_rules =
  mdtg :: "rules option"

record event =
  e_id :: string
  e_name :: string
  e_date :: string
  e_location :: string
  e_group :: string
  e_notes :: string
  e_thresholds :: thresholds
  e_rules :: event_rules
  participants :: "participant list"
  createdAt :: nat

record stats =
  count :: nat
  activeCount :: nat
  totalReserveRMB :: jsnum
  collectedPrepayRMB :: jsnum

text \<open>
  \<open>calcStats\<close>: \<open>reduce\<close> with an initial value is a left fold; each total is then
  passed through \<open>Math.round(x * 100) / 100\<close>.
\<close>

definition calcStats :: "event \<Rightarrow> stats" where
  "calcStats evt =
     (let count = length (participants evt);
          activeList = filter (\<lambda>p. status p = ''active'') (participants evt);
          activeCount = length activeList;
          totalReserveRMB =
            js_div (Math_round (js_mul
              (foldl (\<lambda>a p. js_add a (budget_number (reserveRMB p))) (Fin 0) (participants evt))
              (Fin 100))) (Fin 100);
          collectedPrepayRMB =
            js_div (Math_round (js_mul
              (foldl (\<lambda>a p.
                 let pre = mdtgPrepayOf (reserveRMB p) (mdtg (e_rules evt));
                     need = js_mul (Number (js_or (reserveRMB p) (JNum (Fin 0)))) (ratio pre)
                 in js_add a (if depositPaid p then need else Fin 0))
               (Fin 0) (participants evt))
              (Fin 100))) (Fin 100)
      in \<lparr> count = count, activeCount = activeCount, totalReserveRMB = totalReserveRMB,
           collectedPrepayRMB = collectedPrepayRMB \<rparr>)"

text \<open>
  The aggregator in the spec's words: the budget of a participant is the stored value
  coerced to a number (invalid or missing gives 0); a sum starts from 0 and adds in list
  order, each addition rounded to a double; rounding to 2 decimal places is
  \<open>Math.round(x * 100) / 100\<close> on doubles (\<open>round2\<close>).
\<close>

definition budget_of :: "participant \<Rightarrow> jsnum" where
  "budget_of p = budget_number (reserveRMB p)"

text \<open>
  A stored budget is numeric when it is falsy or converts to a number, which excludes a
  non-numeric text, an object and an array of several elements.
\<close>

definition numeric_budget :: "jsval \<Rightarrow> bool" where
  "numeric_budget v = (\<not> truthy v \<or> Number v \<noteq> NaN)"

text \<open>A real number rounded to 2 decimal places, a tie upwards, with no double in between.\<close>

definition nearest_cent :: "real \<Rightarrow> real" where
  "nearest_cent s = of_int \<lfloor>s * 100 + 1 / 2\<rfloor> / 100"

text \<open>A number is a double when rounding leaves it as it is.\<close>

definition is_double :: "jsnum \<Rightarrow> bool" where
  "is_double a = (case a of Fin y \<Rightarrow> rnd y = Fin y | _ \<Rightarrow> True)"

definition js_sum :: "jsnum list \<Rightarrow> jsnum" where
  "js_sum xs = foldl js_add (Fin 0) xs"

definition round2 :: "jsnum \<Rightarrow> jsnum" where
  "round2 x = js_div (Math_round (js_mul x (Fin 100))) (Fin 100)"

definition required_prepay :: "event \<Rightarrow> participant \<Rightarrow> jsnum" where
  "required_prepay evt p =
     js_mul (budget_of p) (ratio (mdtgPrepayOf (JNum (budget_of p)) (mdtg (e_rules evt))))"

section \<open>Quorum progress\<close>

text \<open>The percentage computed by \<open>ProgressBar({label, current, total})\<close>.\<close>

definition ProgressBar_pct :: "jsval \<Rightarrow> jsval \<Rightarrow> jsnum" where
  "ProgressBar_pct current total' =
     Math_max (Fin 0) (Math_min (Fin 100) (Math_round (js_mul
       (js_div (Number (js_or current (JNum (Fin 0)))) (Number (js_or total' (JNum (Fin 1)))))
       (Fin 100))))"

text \<open>
  The denominator in the spec's words: the threshold if it is a non-zero number, 1
  otherwise; and the percentage in its words, \<open>/\<close> and \<open>*\<close> being the operations on
  doubles.
\<close>

definition threshold_or_1 :: "jsval \<Rightarrow> jsnum" where
  "threshold_or_1 total' =
     (case total' of
        JNum n \<Rightarrow> if n = NaN \<or> n = Fin 0 then Fin 1 else n
      | _ \<Rightarrow> Fin 1)"

definition pct_spec :: "nat \<Rightarrow> jsval \<Rightarrow> jsnum" where
  "pct_spec active total' =
     Math_min (Fin 100) (Math_round (js_mul
       (js_div (Fin (real active)) (threshold_or_1 total')) (Fin 100)))"

text \<open>A threshold that is a number, a boolean, \<open>null\<close> or \<open>undefined\<close>.\<close>

definition number_or_absent :: "jsval \<Rightarrow> bool" where
  "number_or_absent v =
     (case v of JStr s \<Rightarrow> False | JArr xs \<Rightarrow> False | JObj \<Rightarrow> False | _ \<Rightarrow> True)"

section \<open>CSV fields\<close>

definition comma :: char where "comma = CHR '',''"
definition dquote :: char where "dquote = CHR 0x22"
definition newline :: char where "newline = CHR 0x0A"
definition backslash :: char where "backslash = CHR 0x5C"

fun starts_with :: "string \<Rightarrow> string \<Rightarrow> bool" where
  "starts_with s [] = True"
| "starts_with [] (p # ps) = False"
| "starts_with (c # cs) (p # ps) = (c = p \<and> starts_with cs ps)"

text \<open>\<open>s.includes(pat)\<close>: \<open>pat\<close> occurs in \<open>s\<close> as a contiguous substring.\<close>

fun js_includes :: "string \<Rightarrow> string \<Rightarrow> bool" where
  "js_includes [] pat = (pat = [])"
| "js_includes (c # cs) pat = (starts_with (c # cs) pat \<or> js_includes cs pat)"

text \<open>\<open>s.replaceAll(c, rep)\<close> for a pattern of one character.\<close>

definition replaceAll_char :: "char \<Rightarrow> string \<Rightarrow> string \<Rightarrow> string" where
  "replaceAll_char c rep s = concat (map (\<lambda>x. if x = c then rep else [x]) s)"

text \<open>
  \<open>safeCSV\<close> of \<open>src/src/App.jsx\<close>, on a string argument (\<open>String(text ?? "")\<close> is the
  argument itself then). Its third test is \<open>s.includes("\\n")\<close>: the pattern is the two
  characters backslash and \<open>n\<close>.
\<close>

definition safeCSV :: "string \<Rightarrow> string" where
  "safeCSV text =
     (let s = text
      in if js_includes s [comma] \<or> js_includes s [dquote] \<or> js_includes s [backslash, CHR ''n'']
         then [dquote] @ replaceAll_char dquote [dquote, dquote] s @ [dquote]
         else s)"

text \<open>The field serializer in the spec's words.\<close>

definition needs_quoting :: "string \<Rightarrow> bool" where
  "needs_quoting s = (comma \<in> set s \<or> dquote \<in> set s \<or> newline \<in> set s)"

definition quoted :: "string \<Rightarrow> string" where
  "quoted s = [dquote] @ concat (map (\<lambda>c. if c = dquote then [dquote, dquote] else [c]) s) @ [dquote]"

section \<open>Backup import\<close>

datatype json =
  JsNull | JsBool bool | JsNumber real | JsString string
  | JsArray "json list" | JsObject "(string \<times> json) list"

fun json_truthy :: "json \<Rightarrow> bool" where
  "json_truthy JsNull = False"
| "json_truthy (JsBool b) = b"
| "json_truthy (JsNumber x) = (x \<noteq> 0)"
| "json_truthy (JsString s) = (s \<noteq> [])"
| "json_truthy (JsArray xs) = True"
| "json_truthy (JsObject kvs) = True"

text \<open>
  \<open>obj?.events\<close>: \<open>undefined\<close> (\<open>None\<close>) when \<open>obj\<close> is null, a primitive or an array,
  or an object without that property.
\<close>

fun get_events :: "json \<Rightarrow> json option" where
  "get_events (JsObject kvs) = map_of kvs ''events''"
| "get_events obj = None"

definition has_truthy_events :: "json \<Rightarrow> bool" where
  "has_truthy_events obj = (case get_events obj of None \<Rightarrow> False | Some v \<Rightarrow> json_truthy v)"

text \<open>
  The message of the error caught by the handler: the parser's own, or the handler's
  fixed text for a backup without \<open>events\<close>. An alert is the fixed prefix followed by
  that message.
\<close>

datatype err_message = SyntaxError_message string | Format_incorrect

datatype alert = Import_failed err_message

record app_state =
  store_data :: json
  alerts :: "alert list"
  fileInput_value :: "string option"

text \<open>
  \<open>reader.onload\<close>. \<open>JSON.parse\<close> is the runtime's: the handler is modelled for any
  parser, \<open>Inl\<close> the message of the \<open>SyntaxError\<close> it throws. The \<open>finally\<close> block
  clears the file input when the reference holds one.
\<close>

definition onload :: "(string \<Rightarrow> string + json) \<Rightarrow> string option \<Rightarrow> app_state \<Rightarrow> app_state" where
  "onload JSON_parse result st =
     (let text = (case result of None \<Rightarrow> [] | Some s \<Rightarrow> s);
          st' = (case JSON_parse text of
                   Inl msg \<Rightarrow> st\<lparr>alerts := alerts st @ [Import_failed (SyntaxError_message msg)]\<rparr>
                 | Inr obj \<Rightarrow>
                     if \<not> has_truthy_events obj
                     then st\<lparr>alerts := alerts st @ [Import_failed Format_incorrect]\<rparr>
                     else st\<lparr>store_data := obj\<rparr>)
      in st'\<lparr>fileInput_value := map_option (\<lambda>_. []) (fileInput_value st')\<rparr>)"

text \<open>\<open>importJSON(file)\<close>: nothing without a file, otherwise the file's text is read and handed to \<open>onload\<close>.\<close>

definition importJSON :: "(string \<Rightarrow> string + json) \<Rightarrow> string option \<Rightarrow> app_state \<Rightarrow> app_state" where
  "importJSON JSON_parse file st =
     (case file of None \<Rightarrow> st | Some content \<Rightarrow> onload JSON_parse (Some content) st)"

section \<open>The store and event deletion\<close>

record store =
  events :: "event list"
  selectedEventId :: "string option"

text \<open>\<open>xs[0]\<close>: \<open>undefined\<close> on the empty array.\<close>

definition index0 :: "'a list \<Rightarrow> 'a option" where
  "index0 xs = (case xs of [] \<Rightarrow> None | x # _ \<Rightarrow> Some x)"

definition removeEvent :: "string \<Rightarrow> store \<Rightarrow> store" where
  "removeEvent i d =
     (let filtered = filter (\<lambda>e. e_id e \<noteq> i) (events d)
      in \<lparr> events = filtered,
           selectedEventId = (case index0 filtered of None \<Rightarrow> None | Some e \<Rightarrow> Some (e_id e)) \<rparr>)"

section \<open>The variant in \<open>src/src/src/App.jsx\<close>\<close>

definition DEFAULT_MDTG_RULES_alt :: rules where
  "DEFAULT_MDTG_RULES_alt =
     \<lparr> tiers =
         [ \<lparr> tier_min = Fin 0, tier_max = Some (Fin 300), tier_rate = Fin 6.5 \<rparr>,
           \<lparr> tier_min = Fin 300, tier_max = Some (Fin 500), tier_rate = lit 6.3 \<rparr>,
           \<lparr> tier_min = Fin 500, tier_max = None, tier_rate = Fin 6.0 \<rparr> ],
       depositPolicy =
         \<lparr> small = \<lparr> small_upTo = Fin 300, small_type = ''deposit'', small_ratio = lit 0.3 \<rparr>,
           mid = \<lparr> mid_from = Fin 300, mid_to = Fin 500, mid_type = ''deposit'',
                   mid_ratio = Fin 0.5 \<rparr>,
           large = \<lparr> large_from = Fin 500, large_type = ''full'', large_ratio = Fin 1.0 \<rparr> \<rparr>,
       priorityWindowMin = 30 \<rparr>"

fun rate_loop_alt :: "jsnum \<Rightarrow> tier list \<Rightarrow> jsnum option" where
  "rate_loop_alt n [] = None"
| "rate_loop_alt n (t # ts) =
     (if tier_max t = None
      then (if js_ge n (tier_min t) then Some (tier_rate t) else rate_loop_alt n ts)
      else if js_ge n (tier_min t) \<and> js_lt n (the (tier_max t)) then Some (tier_rate t)
      else rate_loop_alt n ts)"

definition mdtgRateOf_alt :: "jsval \<Rightarrow> rules option \<Rightarrow> jsnum" where
  "mdtgRateOf_alt budgetRMB rules_arg =
     (let rules = (case rules_arg of None \<Rightarrow> DEFAULT_MDTG_RULES_alt | Some x \<Rightarrow> x);
          n = Number (js_or (JNum (Number budgetRMB)) (JNum (Fin 0)))
      in case rate_loop_alt n (tiers rules) of
           Some r \<Rightarrow> r
         | None \<Rightarrow> (case at_last (tiers rules) of None \<Rightarrow> Fin 6.0 | Some t \<Rightarrow> tier_rate t))"

definition mdtgPrepayOf_alt :: "jsval \<Rightarrow> rules option \<Rightarrow> prepay" where
  "mdtgPrepayOf_alt budgetRMB rules_arg =
     (let rules = (case rules_arg of None \<Rightarrow> DEFAULT_MDTG_RULES_alt | Some x \<Rightarrow> x);
          n = Number (js_or (JNum (Number budgetRMB)) (JNum (Fin 0)))
      in if js_lt n (small_upTo (small (depositPolicy rules)))
         then \<lparr> prepay_type = ''deposit'', ratio = small_ratio (small (depositPolicy rules)) \<rparr>
         else if js_ge n (mid_from (mid (depositPolicy rules)))
                 \<and> js_lt n (mid_to (mid (depositPolicy rules)))
         then \<lparr> prepay_type = ''deposit'', ratio = mid_ratio (mid (depositPolicy rules)) \<rparr>
         else \<lparr> prepay_type = ''full'', ratio = Fin 1.0 \<rparr>)"

definition calcStats_alt :: "event \<Rightarrow> stats" where
  "calcStats_alt evt =
     (let count = length (participants evt);
          activeList = filter (\<lambda>p. status p = ''active'') (participants evt);
          activeCount = length activeList;
          totalReserveRMB =
            js_div (Math_round (js_mul
              (foldl (\<lambda>a p. js_add a (Number (js_or (JNum (Number (reserveRMB p))) (JNum (Fin 0)))))
                 (Fin 0) (participants evt))
              (Fin 100))) (Fin 100);
          collectedPrepayRMB =
            js_div (Math_round (js_mul
              (foldl (\<lambda>a p.
                 let pre = mdtgPrepayOf_alt (reserveRMB p) (mdtg (e_rules evt));
                     need = js_mul (Number (js_or (reserveRMB p) (JNum (Fin 0)))) (ratio pre)
                 in js_add a (if depositPaid p then need else Fin 0))
               (Fin 0) (participants evt))
              (Fin 100))) (Fin 100)
      in \<lparr> count = count, activeCount = activeCount, totalReserveRMB = totalReserveRMB,
           collectedPrepayRMB = collectedPrepayRMB \<rparr>)"

text \<open>Its \<open>safeCSV\<close> tests \<open>s.includes("\n")\<close>: the pattern is the newline character.\<close>

definition safeCSV_alt :: "string \<Rightarrow> string" where
  "safeCSV_alt text =
     (let s = text
      in if js_includes s [comma] \<or> js_includes s [dquote] \<or> js_includes s [newline]
         then [dquote] @ replaceAll_char dquote [dquote, dquote] s @ [dquote]
         else s)"

section \<open>Scenario data\<close>

text \<open>
  The spec's scenario: an event with threshold 6, the default rules and participants
  with budgets 200, 400 and 600. Here the first and the third have paid their
  prepayment, and the third has cancelled.
\<close>

definition scenario_participant :: "string \<Rightarrow> real \<Rightarrow> bool \<Rightarrow> string \<Rightarrow> participant" where
  "scenario_participant i b paid st =
     \<lparr> p_id = i, p_name = i, p_handle = [], p_wish = [], reserveRMB = JNum (Fin b),
       depositPaid = paid, prepayType = ''deposit'', status = st, p_note = [] \<rparr>"

definition scenario_event :: event where
  "scenario_event =
     \<lparr> e_id = ''e1'', e_name = ''demo'', e_date = ''2025-01-01'', e_location = ''Ikebukuro'',
       e_group = ''mdtg'', e_notes = [],
       e_thresholds = \<lparr> headcount = JNum (Fin 6) \<rparr>,
       e_rules = \<lparr> mdtg = Some DEFAULT_MDTG_RULES \<rparr>,
       participants =
         [ scenario_participant ''p1'' 200 True ''active'',
           scenario_participant ''p2'' 400 False ''active'',
           scenario_participant ''p3'' 600 True ''cancelled'' ],
       createdAt = 0 \<rparr>"

text \<open>
  Three more events: one paid budget of 99.75; the budgets \<open>2^53\<close> and 1; and a paid
  participant whose stored budget is the text \<open>abc\<close>.
\<close>

definition cents_event :: event where
  "cents_event =
     scenario_event
       \<lparr> participants := [scenario_participant ''p4'' 99.75 True ''active''] \<rparr>"

definition big_event :: event where
  "big_event =
     scenario_event
       \<lparr> participants :=
           [ scenario_participant ''p5'' 9007199254740992 False ''active'',
             scenario_participant ''p6'' 1 False ''active'' ] \<rparr>"

definition text_event :: event where
  "text_event =
     scenario_event
       \<lparr> participants :=
           [ (scenario_participant ''p7'' 0 True ''active'') \<lparr> reserveRMB := JStr ''abc'' \<rparr> ] \<rparr>"

text \<open>A store of three events, the last one selected.\<close>

definition scenario_store :: store where
  "scenario_store =
     \<lparr> events = [scenario_event, scenario_event\<lparr>e_id := ''e2''\<rparr>, scenario_event\<lparr>e_id := ''e3''\<rparr>],
       selectedEventId = Some ''e3'' \<rparr>"

text \<open>Rules whose tiers leave the gap \<open>[200, 300)\<close>.\<close>

definition gap_rules :: rules where
  "gap_rules =
     DEFAULT_MDTG_RULES
       \<lparr> tiers :=
           [ \<lparr> tier_min = Fin 100, tier_max = Some (Fin 200), tier_rate = Fin 7 \<rparr>,
             \<lparr> tier_min = Fin 300, tier_max = None, tier_rate = Fin 5 \<rparr> ] \<rparr>"

text \<open>A parser that accepts two texts and rejects every other one.\<close>

definition sample_parse :: "string \<Rightarrow> string + json" where
  "sample_parse s =
     (if s = ''backup'' then Inr (JsObject [(''events'', JsArray []), (''selectedEventId'', JsNull)])
      else if s = ''empty'' then Inr (JsObject [])
      else Inl ''Unexpected token'')"

definition sample_state :: app_state where
  "sample_state =
     \<lparr> store_data = JsObject [(''events'', JsArray [JsObject []])], alerts = [],
       fileInput_value = Some ''backup.json'' \<rparr>"

section \<open>Rounding to a double: properties\<close>

lemma expo_ge1:
  assumes "1 \<le> x"
  shows "2 powi (expo x) \<le> x \<and> x < 2 powi (expo x + 1)"
proof -
  define n where "n = nat \<lfloor>x\<rfloor>"
  have n: "0 < n" using assms by (simp add: n_def)
  define w where "w = floorlog 2 n"
  have w: "0 < w" using n by (simp add: w_def floorlog_def)
  from floorlog_bounds [of n 2] n have b: "2 ^ (w - 1) \<le> n" "n < 2 ^ w"
    by (simp_all add: w_def)
  have e: "expo x = int w - 1" using assms by (simp add: expo_def n_def w_def)
  have nx: "real n \<le> x" using assms by (simp add: n_def)
  have "real (2 ^ (w - 1)) \<le> real n" using b(1) by (rule of_nat_mono)
  then have a: "(2::real) ^ (w - 1) \<le> real n" by simp
  have p1: "(2::real) powi (expo x) = 2 ^ (w - 1)"
    using w by (simp add: e power_int_def nat_diff_distrib)
  have lo: "2 powi (expo x) \<le> x" unfolding p1 using a nx by linarith
  have "x < of_int \<lfloor>x\<rfloor> + 1" by (rule real_of_int_floor_add_one_gt)
  moreover have "real n = of_int \<lfloor>x\<rfloor>" using assms by (simp add: n_def)
  ultimately have xn: "x < real n + 1" by simp
  have "Suc n \<le> 2 ^ w" using b(2) by simp
  then have "real (Suc n) \<le> real (2 ^ w)" by (rule of_nat_mono)
  then have c: "real n + 1 \<le> 2 ^ w" by simp
  have p2: "(2::real) powi (expo x + 1) = 2 ^ w" by (simp add: e)
  have "x < 2 powi (expo x + 1)" unfolding p2 using xn c by linarith
  with lo show ?thesis by simp
qed

lemma expo_lt1:
  assumes "0 < x" "x < 1"
  shows "2 powi (expo x) \<le> x \<and> x < 2 powi (expo x + 1)"
proof -
  define y where "y = 1 / x"
  have y: "1 < y" using assms by (simp add: y_def)
  define n where "n = nat (\<lceil>y\<rceil> - 1)"
  have "1 < \<lceil>y\<rceil>" using y by (simp add: less_ceiling_iff)
  then have c2: "2 \<le> \<lceil>y\<rceil>" by simp
  have n: "0 < n" using c2 by (simp add: n_def)
  define w where "w = floorlog 2 n"
  have w: "0 < w" using n by (simp add: w_def floorlog_def)
  from floorlog_bounds [of n 2] n have b: "2 ^ (w - 1) \<le> n" "n < 2 ^ w"
    by (simp_all add: w_def)
  have e: "expo x = - int w" using assms by (simp add: expo_def n_def w_def y_def)
  have rn: "real n = of_int \<lceil>y\<rceil> - 1" using c2 by (simp add: n_def)
  have yu: "y \<le> real n + 1" unfolding rn using ceiling_correct [of y] by simp
  have "Suc n \<le> 2 ^ w" using b(2) by simp
  then have "real (Suc n) \<le> real (2 ^ w)" by (rule of_nat_mono)
  then have c: "real n + 1 \<le> 2 ^ w" by simp
  have yw: "y \<le> 2 ^ w" using yu c by linarith
  have "real (2 ^ (w - 1)) \<le> real n" using b(1) by (rule of_nat_mono)
  then have a: "(2::real) ^ (w - 1) \<le> real n" by simp
  have "real n < y" unfolding rn using ceiling_correct [of y] by simp
  with a have ylo: "(2::real) ^ (w - 1) < y" by linarith
  have xy: "x = 1 / y" using assms by (simp add: y_def)
  have p1: "(2::real) powi (expo x) = 1 / 2 ^ w"
    by (simp add: e power_int_minus_divide)
  have "1 / 2 ^ w \<le> 1 / y" using yw y by (simp add: frac_le)
  then have lo: "2 powi (expo x) \<le> x" unfolding p1 using xy by simp
  have p2: "(2::real) powi (expo x + 1) = 1 / 2 ^ (w - 1)"
  proof -
    have "expo x + 1 = - int (w - 1)" using w by (simp add: e)
    then show ?thesis by (simp add: power_int_minus_divide)
  qed
  have "1 / y < 1 / 2 ^ (w - 1)" using ylo by (simp add: frac_less2)
  then have "x < 2 powi (expo x + 1)" unfolding p2 using xy by simp
  with lo show ?thesis by simp
qed

lemma expo_bounds:
  assumes "0 < x"
  shows "2 powi (expo x) \<le> x \<and> x < 2 powi (expo x + 1)"
  using assms expo_ge1 [of x] expo_lt1 [of x] by (cases "1 \<le> x") auto

lemma powi2_mono: "a \<le> b \<Longrightarrow> (2::real) powi a \<le> 2 powi b"
  by (rule power_int_increasing) simp_all

lemma powi2_less_imp: "(2::real) powi a < 2 powi b \<Longrightarrow> a < b"
  using powi2_mono [of b a] by (cases "a < b") auto

lemma powi2_pos: "(0::real) < 2 powi e"
  by (rule zero_less_power_int) simp

lemma powi2_add: "(2::real) powi (a + b) = 2 powi a * 2 powi b"
  by (rule power_int_add) simp

lemma powi2_int: "0 \<le> e \<Longrightarrow> (2::real) powi e = of_int (2 ^ nat e)"
  by (simp add: power_int_def)

lemma expo_unique:
  assumes "2 powi e \<le> x" "x < 2 powi (e + 1)"
  shows "expo x = e"
proof -
  have x: "0 < x" using assms(1) powi2_pos [of e] by linarith
  from expo_bounds [OF x] have b: "2 powi (expo x) \<le> x" "x < 2 powi (expo x + 1)"
    by simp_all
  have "(2::real) powi e < 2 powi (expo x + 1)" using assms(1) b(2) by linarith
  then have 1: "e < expo x + 1" by (rule powi2_less_imp)
  have "(2::real) powi (expo x) < 2 powi (e + 1)" using assms(2) b(1) by linarith
  then have 2: "expo x < e + 1" by (rule powi2_less_imp)
  from 1 2 show ?thesis by simp
qed

lemma rne_of_int: "rne (of_int k) = k"
  by (simp add: rne_def)

lemma rne_ge_floor: "\<lfloor>q\<rfloor> \<le> rne q"
  by (simp add: rne_def Let_def)

lemma rne_le_floor1: "rne q \<le> \<lfloor>q\<rfloor> + 1"
  by (simp add: rne_def Let_def)

lemma rne_lower:
  assumes "of_int a \<le> q"
  shows "a \<le> rne q"
proof -
  have "a \<le> \<lfloor>q\<rfloor>" using assms by (simp add: le_floor_iff)
  with rne_ge_floor [of q] show ?thesis by linarith
qed

lemma rne_upper:
  assumes "q \<le> of_int b"
  shows "rne q \<le> b"
proof (cases "\<lfloor>q\<rfloor> < b")
  case True
  then show ?thesis using rne_le_floor1 [of q] by linarith
next
  case False
  have "\<lfloor>q\<rfloor> \<le> b" using assms by (simp add: floor_le_iff)
  with False have fb: "\<lfloor>q\<rfloor> = b" by simp
  have "of_int \<lfloor>q\<rfloor> \<le> q" by (rule of_int_floor_le)
  with assms fb have "q = of_int b" by simp
  then show ?thesis by (simp add: rne_of_int)
qed

text \<open>A multiple of a power of two that is at least the spacing at that value is a double.\<close>

lemma rnd_pos_fixed:
  assumes "y = of_int k * 2 powi e" "ulp_exp y \<le> e"
  shows "rnd_pos y = y"
proof -
  define d where "d = e - ulp_exp y"
  have d: "0 \<le> d" using assms(2) by (simp add: d_def)
  have "e = d + ulp_exp y" by (simp add: d_def)
  then have "(2::real) powi e = 2 powi d * 2 powi ulp_exp y" by (simp add: powi2_add)
  then have y: "y = of_int (k * 2 ^ nat d) * 2 powi ulp_exp y"
    using assms(1) d by (simp add: powi2_int)
  have "y / 2 powi ulp_exp y = of_int (k * 2 ^ nat d)"
    using powi2_pos [of "ulp_exp y"] by (subst y) simp
  then have "rne (y / 2 powi ulp_exp y) = k * 2 ^ nat d"
    by (simp only: rne_of_int)
  then show ?thesis using y by (simp add: rnd_pos_def)
qed

lemma ulp_exp_ge: "- 1074 \<le> ulp_exp x"
  by (simp add: ulp_exp_def)

lemma scaled_lt_2_53:
  assumes "0 < x"
  shows "x / 2 powi ulp_exp x < 2 ^ 53"
proof -
  from expo_bounds [OF assms] have hi: "x < 2 powi (expo x + 1)" by simp
  have "expo x + 1 \<le> ulp_exp x + 53" by (simp add: ulp_exp_def)
  then have "(2::real) powi (expo x + 1) \<le> 2 powi (ulp_exp x + 53)" by (rule powi2_mono)
  with hi have "x < 2 powi (ulp_exp x + 53)" by linarith
  then have "x < 2 powi ulp_exp x * 2 ^ 53" by (simp add: powi2_add)
  then show ?thesis using powi2_pos [of "ulp_exp x"] by (simp add: field_simps)
qed

lemma expo_scaled:
  assumes "0 < k"
  shows "expo (of_int k * 2 powi e) = expo (of_int k) + e"
proof (rule expo_unique)
  have k: "(0::real) < of_int k" using assms by simp
  from expo_bounds [OF k] have b: "2 powi expo (of_int k) \<le> (of_int k :: real)"
    "(of_int k :: real) < 2 powi (expo (of_int k) + 1)" by simp_all
  show "2 powi (expo (real_of_int k) + e) \<le> real_of_int k * 2 powi e"
    using b(1) powi2_pos [of e] by (simp add: powi2_add)
  have "expo (real_of_int k) + e + 1 = (expo (of_int k) + 1) + e" by simp
  then have "(2::real) powi (expo (real_of_int k) + e + 1)
      = 2 powi (expo (of_int k) + 1) * 2 powi e"
    by (simp only: powi2_add)
  then show "real_of_int k * 2 powi e < 2 powi (expo (real_of_int k) + e + 1)"
    using b(2) powi2_pos [of e] by simp
qed

lemma expo_int_le_52:
  assumes "0 < k" "k < 2 ^ 53"
  shows "expo (of_int k) \<le> 52"
proof -
  have k: "(0::real) < of_int k" using assms by simp
  from expo_bounds [OF k] have "2 powi expo (of_int k) \<le> (of_int k :: real)" by simp
  moreover have "(of_int k :: real) < 2 powi 53" using assms(2)
    by (metis of_int_less_iff of_int_numeral of_int_power power_int_numeral)
  ultimately have "(2::real) powi expo (of_int k) < 2 powi 53" by linarith
  then have "expo (of_int k) < 53" by (rule powi2_less_imp)
  then show ?thesis by simp
qed

text \<open>A positive rounded value lies on the grid of doubles at its own magnitude.\<close>

lemma rnd_pos_grid:
  assumes "0 < x" "0 < rnd_pos x"
  shows "\<exists>k e. rnd_pos x = of_int k * 2 powi e \<and> ulp_exp (rnd_pos x) \<le> e"
proof -
  define u where "u = ulp_exp x"
  define k where "k = rne (x / 2 powi u)"
  have y: "rnd_pos x = of_int k * 2 powi u" by (simp add: rnd_pos_def k_def u_def)
  have kpos: "0 < k"
  proof (rule ccontr)
    assume "\<not> 0 < k"
    then have "of_int k * 2 powi u \<le> (0::real)"
      using powi2_pos [of u] by (simp add: mult_le_0_iff)
    with assms(2) y show False by simp
  qed
  have "x / 2 powi u \<le> of_int (2 ^ 53)"
    using scaled_lt_2_53 [OF assms(1)] by (simp add: u_def)
  then have kle: "k \<le> 2 ^ 53" unfolding k_def by (rule rne_upper)
  show ?thesis
  proof (cases "k < 2 ^ 53")
    case True
    have "expo (rnd_pos x) = expo (of_int k) + u" unfolding y using kpos by (rule expo_scaled)
    moreover have "expo (of_int k) \<le> 52" using kpos True by (rule expo_int_le_52)
    moreover have "- 1074 \<le> u" unfolding u_def by (rule ulp_exp_ge)
    ultimately have "ulp_exp (rnd_pos x) \<le> u" by (simp add: ulp_exp_def)
    with y show ?thesis by blast
  next
    case False
    with kle have k53: "k = 2 ^ 53" by simp
    have y2: "rnd_pos x = of_int (2 ^ 52) * 2 powi (u + 1)"
      unfolding y k53 by (simp add: powi2_add)
    have "expo (of_int (2 ^ 52 :: int) * 2 powi (u + 1))
        = expo (of_int (2 ^ 52 :: int)) + (u + 1)"
      by (rule expo_scaled) simp
    moreover have "expo (of_int (2 ^ 52 :: int)) = 52"
      by (rule expo_unique) simp_all
    moreover have "- 1074 \<le> u" unfolding u_def by (rule ulp_exp_ge)
    ultimately have "ulp_exp (rnd_pos x) \<le> u + 1" unfolding y2 by (simp add: ulp_exp_def)
    with y2 show ?thesis by blast
  qed
qed

lemma rnd_pos_idem:
  assumes "0 < x" "0 < rnd_pos x"
  shows "rnd_pos (rnd_pos x) = rnd_pos x"
proof -
  from rnd_pos_grid [OF assms] obtain k e where
    "rnd_pos x = of_int k * 2 powi e" "ulp_exp (rnd_pos x) \<le> e" by blast
  then show ?thesis by (rule rnd_pos_fixed)
qed

lemma rnd_pos_nonneg:
  assumes "0 \<le> x"
  shows "0 \<le> rnd_pos x"
proof -
  have "0 \<le> x / 2 powi ulp_exp x" using assms powi2_pos [of "ulp_exp x"] by simp
  then have "of_int 0 \<le> x / 2 powi ulp_exp x" by simp
  then have "0 \<le> rne (x / 2 powi ulp_exp x)" by (rule rne_lower)
  then show ?thesis using powi2_pos [of "ulp_exp x"] by (simp add: rnd_pos_def)
qed

text \<open>Rounding a double again changes nothing.\<close>

lemma rnd_idem:
  assumes "rnd x = Fin y"
  shows "rnd y = Fin y"
proof (cases "x = 0")
  case True
  with assms show ?thesis by (simp add: rnd_def)
next
  case False
  define z where "z = rnd_pos \<bar>x\<bar>"
  have z0: "0 \<le> z" unfolding z_def by (rule rnd_pos_nonneg) simp
  have fin: "\<not> 2 ^ 1024 \<le> z" and y: "y = sgn x * z"
    using assms False by (auto simp: rnd_def z_def Let_def split: if_splits)
  show ?thesis
  proof (cases "z = 0")
    case True
    with y show ?thesis by (simp add: rnd_def)
  next
    case False
    with z0 have zpos: "0 < z" by simp
    have ax: "0 < \<bar>x\<bar>" using \<open>x \<noteq> 0\<close> by simp
    have zz: "rnd_pos z = z"
      unfolding z_def using ax zpos [unfolded z_def] by (rule rnd_pos_idem)
    have ay: "\<bar>y\<bar> = z" using y zpos \<open>x \<noteq> 0\<close> by (simp add: abs_mult)
    have sy: "sgn y = sgn x" using y zpos by (simp add: sgn_mult)
    have y0: "y \<noteq> 0" using ay zpos by auto
    show ?thesis using y0 fin zz ay sy y by (simp add: rnd_def sgn_if)
  qed
qed

lemma rnd_not_NaN: "rnd x \<noteq> NaN"
  by (simp add: rnd_def Let_def)

lemma rnd_0: "rnd 0 = Fin 0"
  by (simp add: rnd_def)

lemma rnd_ge0:
  assumes "0 \<le> x"
  shows "js_ge (rnd x) (Fin 0)"
proof (cases "x = 0")
  case True
  then show ?thesis by (simp add: rnd_def)
next
  case False
  with assms have x: "0 < x" by simp
  have "0 \<le> rnd_pos \<bar>x\<bar>" by (rule rnd_pos_nonneg) simp
  then show ?thesis using x by (simp add: rnd_def Let_def)
qed

lemma is_double_rnd: "is_double (rnd x)"
  by (cases "rnd x") (simp_all add: is_double_def rnd_idem)

lemma is_double_add: "is_double (js_add a b)"
  by (cases a; cases b) (simp_all add: is_double_rnd, simp_all add: is_double_def)

lemma js_add_0: "is_double a \<Longrightarrow> js_add a (Fin 0) = a"
  by (cases a) (simp_all add: is_double_def)

text \<open>Evaluating a rounding at a numeral.\<close>

lemmas rnd_eval =
  rnd_def rnd_pos_def ulp_exp_def expo_def rne_def Let_def compute_floorlog
  power_int_minus_divide

lemma lit_0_3: "lit 0.3 = Fin (5404319552844595 / 2 ^ 54)"
  by (simp add: lit_def rnd_eval)

lemma lit_6_3: "lit 6.3 = Fin (7093169413108531 / 2 ^ 50)"
  by (simp add: lit_def rnd_eval)

section \<open>Default bands\<close>

lemma budget_number_Fin: "budget_number (JNum (Fin x)) = Fin x"
  by (simp add: budget_number_def js_or_def)

lemma budget_number_PInf: "budget_number (JNum PInf) = PInf"
  by (simp add: budget_number_def js_or_def)

lemma budget_number_NInf: "budget_number (JNum NInf) = NInf"
  by (simp add: budget_number_def js_or_def)

lemma budget_number_NaN: "Number v = NaN \<Longrightarrow> budget_number v = Fin 0"
  by (simp add: budget_number_def js_or_def)

lemma budget_number_idem: "budget_number (JNum (budget_number v)) = budget_number v"
  by (simp add: budget_number_def js_or_def)

lemma prepay_default_Fin:
  assumes "rules_or_default r = DEFAULT_MDTG_RULES"
  shows "mdtgPrepayOf (JNum (Fin x)) r =
           (if x < 300 then \<lparr> prepay_type = ''deposit'', ratio = lit 0.3 \<rparr>
            else if x < 500 then \<lparr> prepay_type = ''deposit'', ratio = Fin 0.5 \<rparr>
            else \<lparr> prepay_type = ''full'', ratio = Fin 1.0 \<rparr>)"
  using assms by (simp add: mdtgPrepayOf_def budget_number_Fin DEFAULT_MDTG_RULES_def)

lemma prepay_default_PInf:
  assumes "rules_or_default r = DEFAULT_MDTG_RULES"
  shows "mdtgPrepayOf (JNum PInf) r = \<lparr> prepay_type = ''full'', ratio = Fin 1.0 \<rparr>"
  using assms by (simp add: mdtgPrepayOf_def budget_number_PInf DEFAULT_MDTG_RULES_def)

lemma prepay_default_NInf:
  assumes "rules_or_default r = DEFAULT_MDTG_RULES"
  shows "mdtgPrepayOf (JNum NInf) r = \<lparr> prepay_type = ''deposit'', ratio = lit 0.3 \<rparr>"
  using assms by (simp add: mdtgPrepayOf_def budget_number_NInf DEFAULT_MDTG_RULES_def)

lemma rate_default_Fin:
  assumes "rules_or_default r = DEFAULT_MDTG_RULES"
  shows "mdtgRateOf (JNum (Fin x)) r =
           (if 0 \<le> x \<and> x < 300 then Fin 6.5
            else if 300 \<le> x \<and> x < 500 then lit 6.3
            else Fin 6.0)"
  using assms
  by (simp add: mdtgRateOf_def budget_number_Fin DEFAULT_MDTG_RULES_def at_last_def)

lemma rate_default_PInf:
  assumes "rules_or_default r = DEFAULT_MDTG_RULES"
  shows "mdtgRateOf (JNum PInf) r = Fin 6.0"
  using assms
  by (simp add: mdtgRateOf_def budget_number_PInf DEFAULT_MDTG_RULES_def at_last_def)

lemma rate_default_NInf:
  assumes "rules_or_default r = DEFAULT_MDTG_RULES"
  shows "mdtgRateOf (JNum NInf) r = Fin 6.0"
  using assms
  by (simp add: mdtgRateOf_def budget_number_NInf DEFAULT_MDTG_RULES_def at_last_def)

lemma rate_loop_find:
  "rate_loop n ts = map_option tier_rate (find (tier_matches n) ts)"
  by (induction ts) (simp_all add: tier_matches_def split: option.splits)

text \<open>
  C1. With the default deposit policy (the rules argument omitted, or the default rules
  passed), \<open>mdtgPrepayOf\<close> returns deposit with the ratio of the literal 0.3 for every
  budget below 300 (negative budgets and minus infinity included), deposit 0.5 for
  \<open>300 <= b < 500\<close> and full payment, ratio 1.0, from 500 upwards (plus infinity
  included); the boundaries 300 and 500 belong to the higher band.
\<close>

theorem C1_prepay_default_bands:
  assumes "rules_or_default r = DEFAULT_MDTG_RULES"
  shows "(x < 300 \<longrightarrow>
            mdtgPrepayOf (JNum (Fin x)) r = \<lparr> prepay_type = ''deposit'', ratio = lit 0.3 \<rparr>)
       \<and> (300 \<le> x \<and> x < 500 \<longrightarrow>
            mdtgPrepayOf (JNum (Fin x)) r = \<lparr> prepay_type = ''deposit'', ratio = Fin 0.5 \<rparr>)
       \<and> (500 \<le> x \<longrightarrow>
            mdtgPrepayOf (JNum (Fin x)) r = \<lparr> prepay_type = ''full'', ratio = Fin 1.0 \<rparr>)
       \<and> mdtgPrepayOf (JNum NInf) r = \<lparr> prepay_type = ''deposit'', ratio = lit 0.3 \<rparr>
       \<and> mdtgPrepayOf (JNum PInf) r = \<lparr> prepay_type = ''full'', ratio = Fin 1.0 \<rparr>
       \<and> mdtgPrepayOf (JNum (Fin 300)) r = \<lparr> prepay_type = ''deposit'', ratio = Fin 0.5 \<rparr>
       \<and> mdtgPrepayOf (JNum (Fin 500)) r = \<lparr> prepay_type = ''full'', ratio = Fin 1.0 \<rparr>"
  by (simp add: prepay_default_Fin [OF assms] prepay_default_NInf [OF assms]
      prepay_default_PInf [OF assms])

theorem C1_prepay_default_bands_witness:
  "rules_or_default None = DEFAULT_MDTG_RULES
   \<and> mdtgPrepayOf (JNum (Fin 200)) None = \<lparr> prepay_type = ''deposit'', ratio = lit 0.3 \<rparr>
   \<and> mdtgPrepayOf (JNum (Fin 400)) None = \<lparr> prepay_type = ''deposit'', ratio = Fin 0.5 \<rparr>
   \<and> mdtgPrepayOf (JNum (Fin 600)) None = \<lparr> prepay_type = ''full'', ratio = Fin 1.0 \<rparr>
   \<and> mdtgPrepayOf (JNum (Fin 300)) None = \<lparr> prepay_type = ''deposit'', ratio = Fin 0.5 \<rparr>
   \<and> mdtgPrepayOf (JNum (Fin 500)) None = \<lparr> prepay_type = ''full'', ratio = Fin 1.0 \<rparr>"
proof -
  have d: "rules_or_default None = DEFAULT_MDTG_RULES"
    by (simp add: rules_or_default_def)
  show ?thesis
    using d C1_prepay_default_bands [OF d, of 200] C1_prepay_default_bands [OF d, of 400]
      C1_prepay_default_bands [OF d, of 600]
    by simp
qed

text \<open>
  C2. With the default tier list, \<open>mdtgRateOf\<close> returns 6.5 for \<open>0 <= b < 300\<close>, the
  number of the literal 6.3 for \<open>300 <= b < 500\<close> and 6.0 from 500 upwards (plus
  infinity included); the boundaries 300 and 500 belong to the higher tier.
\<close>

theorem C2_rate_default_tiers:
  assumes "rules_or_default r = DEFAULT_MDTG_RULES"
  shows "(0 \<le> x \<and> x < 300 \<longrightarrow> mdtgRateOf (JNum (Fin x)) r = Fin 6.5)
       \<and> (300 \<le> x \<and> x < 500 \<longrightarrow> mdtgRateOf (JNum (Fin x)) r = lit 6.3)
       \<and> (500 \<le> x \<longrightarrow> mdtgRateOf (JNum (Fin x)) r = Fin 6.0)
       \<and> mdtgRateOf (JNum PInf) r = Fin 6.0
       \<and> mdtgRateOf (JNum (Fin 300)) r = lit 6.3
       \<and> mdtgRateOf (JNum (Fin 500)) r = Fin 6.0"
  by (simp add: rate_default_Fin [OF assms] rate_default_PInf [OF assms])

theorem C2_rate_default_tiers_witness:
  "rules_or_default (Some DEFAULT_MDTG_RULES) = DEFAULT_MDTG_RULES
   \<and> mdtgRateOf (JNum (Fin 200)) (Some DEFAULT_MDTG_RULES) = Fin 6.5
   \<and> mdtgRateOf (JNum (Fin 400)) (Some DEFAULT_MDTG_RULES) = lit 6.3
   \<and> mdtgRateOf (JNum (Fin 600)) (Some DEFAULT_MDTG_RULES) = Fin 6.0
   \<and> mdtgRateOf (JNum (Fin 300)) (Some DEFAULT_MDTG_RULES) = lit 6.3
   \<and> mdtgRateOf (JNum (Fin 500)) (Some DEFAULT_MDTG_RULES) = Fin 6.0"
proof -
  have d: "rules_or_default (Some DEFAULT_MDTG_RULES) = DEFAULT_MDTG_RULES"
    by (simp add: rules_or_default_def)
  show ?thesis
    using d C2_rate_default_tiers [OF d, of 200] C2_rate_default_tiers [OF d, of 400]
      C2_rate_default_tiers [OF d, of 600]
    by simp
qed

section \<open>Budget coercion\<close>

lemma prepay_coerced: "mdtgPrepayOf (JNum (budget_number v)) r = mdtgPrepayOf v r"
  by (simp add: mdtgPrepayOf_def budget_number_idem)

lemma rate_coerced: "mdtgRateOf (JNum (budget_number v)) r = mdtgRateOf v r"
  by (simp add: mdtgRateOf_def budget_number_idem)

text \<open>
  C3, as stated, fails. The resolvers do not clamp a negative budget to 0: with the
  default tiers the budget \<open>-5\<close> matches no tier and gets the last tier's rate 6.0,
  whereas \<open>max(0, -5) = 0\<close> gets 6.5.
\<close>

theorem C3_negative_budget_not_clamped:
  "mdtgRateOf (JNum (Fin (- 5))) (Some DEFAULT_MDTG_RULES) = Fin 6.0
   \<and> mdtgRateOf (JNum (Fin (max 0 (- 5)))) (Some DEFAULT_MDTG_RULES) = Fin 6.5
   \<and> mdtgRateOf (JNum (Fin (- 5))) (Some DEFAULT_MDTG_RULES)
       \<noteq> mdtgRateOf (JNum (Fin (max 0 (- 5)))) (Some DEFAULT_MDTG_RULES)"
  by (simp add: rate_default_Fin rules_or_default_def)

text \<open>
  C3, amended. \<open>mdtgRateOf\<close> and \<open>mdtgPrepayOf\<close> coerce their budget input with
  \<open>Number(x) || 0\<close> and do not clamp it: for every input the result equals the result
  for that coerced number; an input whose numeric value is NaN (non-numeric, or missing)
  is treated as budget 0; a negative budget stays negative. With the default rules, a
  negative budget \<open>b\<close> gets \<open>mdtgPrepayOf(b) = mdtgPrepayOf(0)\<close>, and
  \<open>mdtgRateOf(b)\<close> is 6.0, the rate of the last tier.
\<close>

theorem C3_budget_coercion:
  "mdtgRateOf v r = mdtgRateOf (JNum (budget_number v)) r
   \<and> mdtgPrepayOf v r = mdtgPrepayOf (JNum (budget_number v)) r
   \<and> (Number v = NaN \<longrightarrow>
        mdtgRateOf v r = mdtgRateOf (JNum (Fin 0)) r
        \<and> mdtgPrepayOf v r = mdtgPrepayOf (JNum (Fin 0)) r)
   \<and> (b < 0 \<and> rules_or_default d = DEFAULT_MDTG_RULES \<longrightarrow>
        budget_number (JNum (Fin b)) = Fin b
        \<and> mdtgPrepayOf (JNum (Fin b)) d = mdtgPrepayOf (JNum (Fin 0)) d
        \<and> mdtgRateOf (JNum (Fin b)) d = Fin 6.0)"
proof -
  have nan: "mdtgRateOf v r = mdtgRateOf (JNum (Fin 0)) r
             \<and> mdtgPrepayOf v r = mdtgPrepayOf (JNum (Fin 0)) r" if "Number v = NaN"
  proof -
    from that have "budget_number v = Fin 0" by (rule budget_number_NaN)
    then show ?thesis
      using rate_coerced [of v r] prepay_coerced [of v r] by simp
  qed
  have neg: "budget_number (JNum (Fin b)) = Fin b
             \<and> mdtgPrepayOf (JNum (Fin b)) d = mdtgPrepayOf (JNum (Fin 0)) d
             \<and> mdtgRateOf (JNum (Fin b)) d = Fin 6.0"
    if "b < 0" and "rules_or_default d = DEFAULT_MDTG_RULES"
    using that by (simp add: budget_number_Fin prepay_default_Fin rate_default_Fin)
  show ?thesis
    using nan neg by (simp add: rate_coerced prepay_coerced)
qed

theorem C3_budget_coercion_witness:
  "Number JUndefined = NaN
   \<and> mdtgRateOf JUndefined None = Fin 6.5
   \<and> mdtgPrepayOf JUndefined None = \<lparr> prepay_type = ''deposit'', ratio = lit 0.3 \<rparr>
   \<and> Number (JStr ''abc'') = NaN
   \<and> mdtgRateOf (JStr ''abc'') None = Fin 6.5
   \<and> (- 5 :: real) < 0
   \<and> rules_or_default None = DEFAULT_MDTG_RULES
   \<and> budget_number (JNum (Fin (- 5))) = Fin (- 5)
   \<and> mdtgPrepayOf (JNum (Fin (- 5))) None = \<lparr> prepay_type = ''deposit'', ratio = lit 0.3 \<rparr>
   \<and> mdtgRateOf (JNum (Fin (- 5))) None = Fin 6.0"
proof -
  have d: "rules_or_default None = DEFAULT_MDTG_RULES"
    by (simp add: rules_or_default_def)
  have s: "Number (JStr ''abc'') = NaN"
    by (simp add: StringToNumber_def trim_ws_def is_ws_def parse_non_decimal_def
        parse_unsigned_decimal_def is_digit_def digit_of_def)
  show ?thesis
    using d s C3_budget_coercion [of JUndefined None "- 5" None]
      C3_budget_coercion [of "JStr ''abc''" None "- 5" None]
    by (simp add: rate_default_Fin prepay_default_Fin budget_number_def js_or_def)
qed

section \<open>The aggregator\<close>

lemma StringToNumber_empty: "StringToNumber [] = Fin 0"
  by (simp add: StringToNumber_def trim_ws_def)

lemma StringToNumber_abc: "StringToNumber ''abc'' = NaN"
  by (simp add: StringToNumber_def trim_ws_def is_ws_def parse_non_decimal_def
      parse_unsigned_decimal_def is_digit_def digit_of_def)

lemma budget_number_falsy: "\<not> truthy v \<Longrightarrow> budget_number v = Fin 0"
  by (cases v) (auto simp: budget_number_def js_or_def StringToNumber_empty)

lemma budget_number_truthy: "Number v \<noteq> NaN \<Longrightarrow> budget_number v = Number v"
  by (auto simp: budget_number_def js_or_def)

text \<open>
  The two coercions of \<open>calcStats\<close>, \<open>p.reserveRMB || 0\<close> read as a number and
  \<open>Number(p.reserveRMB) || 0\<close>, agree on a numeric stored budget.
\<close>

lemma coerce_same:
  assumes "numeric_budget v"
  shows "Number (js_or v (JNum (Fin 0))) = budget_number v"
proof (cases "truthy v")
  case True
  with assms have "Number v \<noteq> NaN" by (simp add: numeric_budget_def)
  then show ?thesis using True by (simp add: js_or_def budget_number_truthy)
next
  case False
  then show ?thesis by (simp add: js_or_def budget_number_falsy)
qed

lemma need_required_prepay:
  assumes "numeric_budget (reserveRMB p)"
  shows "js_mul (Number (js_or (reserveRMB p) (JNum (Fin 0))))
           (ratio (mdtgPrepayOf (reserveRMB p) (mdtg (e_rules evt))))
         = required_prepay evt p"
  using assms by (simp add: required_prepay_def budget_of_def coerce_same prepay_coerced)

lemma foldl_paid_cong:
  assumes "\<forall>p \<in> set ps. depositPaid p \<longrightarrow> f p = g p"
  shows "foldl (\<lambda>a p. js_add a (if depositPaid p then f p else Fin 0)) acc ps
       = foldl (\<lambda>a p. js_add a (if depositPaid p then g p else Fin 0)) acc ps"
  using assms by (induction ps arbitrary: acc) simp_all

text \<open>Adding 0 for a participant leaves the running total, a double, as it is.\<close>

lemma foldl_filter_paid:
  assumes "is_double acc"
  shows "foldl (\<lambda>a p. js_add a (f p)) acc (filter depositPaid ps)
       = foldl (\<lambda>a p. js_add a (if depositPaid p then f p else Fin 0)) acc ps"
  using assms
proof (induction ps arbitrary: acc)
  case Nil
  show ?case by simp
next
  case (Cons p ps)
  show ?case
  proof (cases "depositPaid p")
    case True
    have "is_double (js_add acc (f p))" by (rule is_double_add)
    then show ?thesis using True Cons.IH by simp
  next
    case False
    then show ?thesis using Cons by (simp add: js_add_0)
  qed
qed

lemma is_double_0: "is_double (Fin 0)"
  by (simp add: is_double_def rnd_0)

lemma totalReserve_sum:
  "totalReserveRMB (calcStats evt) = round2 (js_sum (map budget_of (participants evt)))"
  by (simp add: calcStats_def Let_def round2_def js_sum_def foldl_map budget_of_def)

lemma collectedPrepay_code:
  "collectedPrepayRMB (calcStats evt)
   = round2 (foldl (\<lambda>a p. js_add a
         (if depositPaid p
          then js_mul (Number (js_or (reserveRMB p) (JNum (Fin 0))))
                 (ratio (mdtgPrepayOf (reserveRMB p) (mdtg (e_rules evt))))
          else Fin 0))
       (Fin 0) (participants evt))"
  by (simp add: calcStats_def Let_def round2_def cong: if_cong)

lemma collectedPrepay_sum:
  assumes "\<forall>p \<in> set (participants evt). depositPaid p \<longrightarrow> numeric_budget (reserveRMB p)"
  shows "collectedPrepayRMB (calcStats evt)
         = round2 (js_sum (map (required_prepay evt) (filter depositPaid (participants evt))))"
proof -
  have "foldl (\<lambda>a p. js_add a
            (if depositPaid p
             then js_mul (Number (js_or (reserveRMB p) (JNum (Fin 0))))
                    (ratio (mdtgPrepayOf (reserveRMB p) (mdtg (e_rules evt))))
             else Fin 0))
          (Fin 0) (participants evt)
        = foldl (\<lambda>a p. js_add a (if depositPaid p then required_prepay evt p else Fin 0))
            (Fin 0) (participants evt)"
    by (rule foldl_paid_cong) (simp add: assms need_required_prepay)
  also have "\<dots> = foldl (\<lambda>a p. js_add a (required_prepay evt p)) (Fin 0)
                     (filter depositPaid (participants evt))"
    by (rule foldl_filter_paid [OF is_double_0, symmetric])
  finally show ?thesis
    by (simp add: collectedPrepay_code js_sum_def foldl_map)
qed

lemma collectedPrepay_unpaid_dropped:
  "collectedPrepayRMB (calcStats (evt\<lparr>participants := filter depositPaid (participants evt)\<rparr>))
   = collectedPrepayRMB (calcStats evt)"
proof -
  define h where "h = (\<lambda>p::participant. js_mul (Number (js_or (reserveRMB p) (JNum (Fin 0))))
                 (ratio (mdtgPrepayOf (reserveRMB p) (mdtg (e_rules evt)))))"
  have 1: "foldl (\<lambda>a p. js_add a (if depositPaid p then h p else Fin 0)) (Fin 0)
             (filter depositPaid (participants evt))
         = foldl (\<lambda>a p. js_add a (h p)) (Fin 0) (filter depositPaid (participants evt))"
    by (rule foldl_cong) simp_all
  have 2: "foldl (\<lambda>a p. js_add a (h p)) (Fin 0) (filter depositPaid (participants evt))
         = foldl (\<lambda>a p. js_add a (if depositPaid p then h p else Fin 0)) (Fin 0)
             (participants evt)"
    by (rule foldl_filter_paid [OF is_double_0])
  have c1: "collectedPrepayRMB
               (calcStats (evt\<lparr>participants := filter depositPaid (participants evt)\<rparr>))
            = round2 (foldl (\<lambda>a p. js_add a (if depositPaid p then h p else Fin 0)) (Fin 0)
                (filter depositPaid (participants evt)))"
    by (simp add: collectedPrepay_code h_def cong: if_cong)
  have c2: "collectedPrepayRMB (calcStats evt)
            = round2 (foldl (\<lambda>a p. js_add a (if depositPaid p then h p else Fin 0)) (Fin 0)
                (participants evt))"
    by (simp add: collectedPrepay_code h_def cong: if_cong)
  from 1 2 have "foldl (\<lambda>a p. js_add a (if depositPaid p then h p else Fin 0)) (Fin 0)
                   (filter depositPaid (participants evt))
               = foldl (\<lambda>a p. js_add a (if depositPaid p then h p else Fin 0)) (Fin 0)
                   (participants evt)"
    by (rule trans)
  then show ?thesis unfolding c1 c2 by (rule arg_cong)
qed

text \<open>
  C4, as stated, fails. \<open>calcStats\<close> adds doubles: for the budgets \<open>2^53\<close> and 1 the
  total it returns is \<open>2^53\<close>, which is not the sum \<open>2^53 + 1\<close> of the budgets rounded
  to 2 decimal places.
\<close>

theorem C4_total_not_exact_sum:
  "map budget_of (participants big_event) = [Fin 9007199254740992, Fin 1]
   \<and> totalReserveRMB (calcStats big_event) = Fin 9007199254740992
   \<and> nearest_cent (9007199254740992 + 1) = 9007199254740993
   \<and> totalReserveRMB (calcStats big_event) \<noteq> Fin (nearest_cent (9007199254740992 + 1))"
proof -
  have b: "map budget_of (participants big_event) = [Fin 9007199254740992, Fin 1]"
    by (simp add: big_event_def scenario_event_def scenario_participant_def budget_of_def
        budget_number_Fin)
  have "js_sum [Fin 9007199254740992, Fin 1] = Fin 9007199254740992"
    by (simp add: js_sum_def rnd_eval)
  moreover have "round2 (Fin 9007199254740992) = Fin 9007199254740992"
    by (simp add: round2_def rnd_eval)
  ultimately have t: "totalReserveRMB (calcStats big_event) = Fin 9007199254740992"
    by (simp add: totalReserve_sum b)
  have n: "nearest_cent (9007199254740992 + 1) = 9007199254740993"
    by (simp add: nearest_cent_def)
  show ?thesis using b t n by simp
qed

text \<open>
  C4, amended. For every event, \<open>calcStats\<close> returns \<open>count\<close> = the number of
  participants, \<open>activeCount\<close> = the number of participants with status \<open>active\<close>, and
  \<open>totalReserveRMB\<close> = the sum of all participants' budgets, added as doubles in list
  order from 0 and passed through \<open>Math.round(x * 100) / 100\<close>. When the stored budget
  of every participant with \<open>depositPaid\<close> set is numeric, \<open>collectedPrepayRMB\<close> is the
  sum, formed and rounded the same way, over exactly the participants with
  \<open>depositPaid\<close> set, of budget times the ratio of \<open>mdtgPrepayOf\<close> at that budget.
  Participants with \<open>depositPaid\<close> false contribute nothing: dropping them leaves
  \<open>collectedPrepayRMB\<close> unchanged.
\<close>

theorem C4_calcStats:
  "count (calcStats evt) = length (participants evt)
   \<and> activeCount (calcStats evt)
       = length (filter (\<lambda>p. status p = ''active'') (participants evt))
   \<and> totalReserveRMB (calcStats evt) = round2 (js_sum (map budget_of (participants evt)))
   \<and> ((\<forall>p \<in> set (participants evt). depositPaid p \<longrightarrow> numeric_budget (reserveRMB p)) \<longrightarrow>
        collectedPrepayRMB (calcStats evt)
        = round2 (js_sum (map (required_prepay evt)
            (filter depositPaid (participants evt)))))
   \<and> collectedPrepayRMB
         (calcStats (evt\<lparr>participants := filter depositPaid (participants evt)\<rparr>))
       = collectedPrepayRMB (calcStats evt)"
proof -
  have "count (calcStats evt) = length (participants evt)"
    by (simp add: calcStats_def Let_def)
  moreover have "activeCount (calcStats evt)
      = length (filter (\<lambda>p. status p = ''active'') (participants evt))"
    by (simp add: calcStats_def Let_def)
  ultimately show ?thesis
    using totalReserve_sum [of evt] collectedPrepay_sum [of evt]
      collectedPrepay_unpaid_dropped [of evt]
    by blast
qed

lemma scenario_budgets:
  "map budget_of (participants scenario_event) = [Fin 200, Fin 400, Fin 600]"
  by (simp add: scenario_event_def scenario_participant_def budget_of_def budget_number_Fin)

lemma scenario_paid:
  "map (required_prepay scenario_event) (filter depositPaid (participants scenario_event))
   = [Fin 60, Fin 600]"
  by (simp add: scenario_event_def scenario_participant_def required_prepay_def budget_of_def
      budget_number_Fin prepay_default_Fin rules_or_default_def lit_0_3 rnd_eval)

lemma scenario_numeric:
  "\<forall>p \<in> set (participants scenario_event). depositPaid p \<longrightarrow> numeric_budget (reserveRMB p)"
  by (simp add: scenario_event_def scenario_participant_def numeric_budget_def)

lemma cents_paid:
  "map (required_prepay cents_event) (filter depositPaid (participants cents_event))
   = [Fin (2105784669516595 / 2 ^ 46)]"
  by (simp add: cents_event_def scenario_event_def scenario_participant_def required_prepay_def
      budget_of_def budget_number_Fin prepay_default_Fin rules_or_default_def lit_0_3 rnd_eval)

lemma cents_numeric:
  "\<forall>p \<in> set (participants cents_event). depositPaid p \<longrightarrow> numeric_budget (reserveRMB p)"
  by (simp add: cents_event_def scenario_event_def scenario_participant_def numeric_budget_def)

lemma scenario_all_numeric:
  "list_all (\<lambda>p. numeric_budget (reserveRMB p)) (participants scenario_event)"
  by (simp add: scenario_event_def scenario_participant_def numeric_budget_def)

lemma cents_all_numeric:
  "list_all (\<lambda>p. numeric_budget (reserveRMB p)) (participants cents_event)"
  by (simp add: cents_event_def scenario_event_def scenario_participant_def numeric_budget_def)

theorem C4_calcStats_witness:
  "list_all (\<lambda>p. numeric_budget (reserveRMB p)) (participants scenario_event)
   \<and> count (calcStats scenario_event) = 3
   \<and> activeCount (calcStats scenario_event) = 2
   \<and> totalReserveRMB (calcStats scenario_event) = Fin 1200
   \<and> collectedPrepayRMB (calcStats scenario_event) = Fin 660
   \<and> list_all (\<lambda>p. numeric_budget (reserveRMB p)) (participants cents_event)
   \<and> collectedPrepayRMB (calcStats cents_event) = lit 29.92"
proof -
  have "length (participants scenario_event) = 3"
    by (simp add: scenario_event_def)
  moreover have "length (filter (\<lambda>p. status p = ''active'') (participants scenario_event)) = 2"
    by (simp add: scenario_event_def scenario_participant_def)
  moreover have "round2 (js_sum [Fin 200, Fin 400, Fin 600]) = Fin 1200"
    by (simp add: round2_def js_sum_def rnd_eval)
  moreover have "round2 (js_sum [Fin 60, Fin 600]) = Fin 660"
    by (simp add: round2_def js_sum_def rnd_eval)
  moreover have "round2 (js_sum [Fin (2105784669516595 / 2 ^ 46)]) = lit 29.92"
    by (simp add: round2_def js_sum_def lit_def rnd_eval)
  ultimately show ?thesis
    using C4_calcStats [of scenario_event] C4_calcStats [of cents_event]
      scenario_numeric cents_numeric scenario_all_numeric cents_all_numeric
    by (simp add: scenario_budgets scenario_paid cents_paid)
qed

text \<open>
  A paid participant whose stored budget is a non-numeric text counts as 0 in the total
  and turns the collected prepayment into NaN: the two coercions of \<open>calcStats\<close> differ
  there.
\<close>

lemma calcStats_text_budget:
  "totalReserveRMB (calcStats text_event) = Fin 0
   \<and> collectedPrepayRMB (calcStats text_event) = NaN"
  by (simp add: calcStats_def text_event_def scenario_event_def scenario_participant_def
      budget_number_def js_or_def StringToNumber_abc mdtgPrepayOf_def rules_or_default_def
      DEFAULT_MDTG_RULES_def rnd_0)

section \<open>Quorum progress\<close>

lemma denominator_eq:
  assumes "number_or_absent t"
  shows "Number (js_or t (JNum (Fin 1))) = threshold_or_1 t"
  using assms by (cases t) (auto simp: js_or_def threshold_or_1_def number_or_absent_def)

lemma threshold_or_1_nonzero: "threshold_or_1 t \<noteq> Fin 0 \<and> threshold_or_1 t \<noteq> NaN"
  by (cases t) (auto simp: threshold_or_1_def)

lemma numerator_eq: "Number (js_or (JNum (Fin x)) (JNum (Fin 0))) = Fin x"
  by (simp add: js_or_def)

lemma pct_code_spec:
  assumes "number_or_absent t"
  shows "ProgressBar_pct (JNum (Fin (real n))) t = Math_max (Fin 0) (pct_spec n t)"
  using assms by (simp add: ProgressBar_pct_def pct_spec_def denominator_eq numerator_eq)

text \<open>Neither the quotient nor the product is NaN when the divisor is neither NaN nor 0.\<close>

lemma div_not_NaN:
  assumes "d \<noteq> NaN" "d \<noteq> Fin 0"
  shows "js_div (Fin x) d \<noteq> NaN"
  using assms by (cases d) (simp_all add: rnd_not_NaN)

lemma mul_100_not_NaN:
  assumes "a \<noteq> NaN"
  shows "js_mul a (Fin 100) \<noteq> NaN"
  using assms by (cases a) (simp_all add: rnd_not_NaN signed_inf_def)

lemma round_not_NaN: "a \<noteq> NaN \<Longrightarrow> Math_round a \<noteq> NaN"
  by (cases a) simp_all

lemma clamp_range:
  assumes "a \<noteq> NaN"
  shows "\<exists>z. Math_max (Fin 0) (Math_min (Fin 100) a) = Fin z \<and> 0 \<le> z \<and> z \<le> 100"
  using assms by (cases a) auto

text \<open>Signs: a non-negative quotient, product and rounding stay non-negative.\<close>

lemma div_ge0:
  assumes "0 < y"
  shows "js_ge (js_div (Fin (real n)) (Fin y)) (Fin 0)"
proof -
  have "0 \<le> real n / y" using assms by simp
  then have "js_ge (rnd (real n / y)) (Fin 0)" by (rule rnd_ge0)
  then show ?thesis using assms by simp
qed

lemma mul_100_ge0:
  assumes "js_ge a (Fin 0)"
  shows "js_ge (js_mul a (Fin 100)) (Fin 0)"
proof (cases a)
  case (Fin z)
  with assms have "0 \<le> z * 100" by simp
  then have "js_ge (rnd (z * 100)) (Fin 0)" by (rule rnd_ge0)
  then show ?thesis using Fin by simp
qed (use assms in \<open>simp_all add: signed_inf_def\<close>)

lemma round_ge0:
  assumes "js_ge a (Fin 0)"
  shows "js_ge (Math_round a) (Fin 0)"
proof (cases a)
  case (Fin z)
  with assms have "0 \<le> z + 1 / 2" by simp
  then have "0 \<le> \<lfloor>z + 1 / 2\<rfloor>" by simp
  then show ?thesis using Fin by simp
qed (use assms in simp_all)

lemma min_100_ge0:
  assumes "js_ge a (Fin 0)"
  shows "js_ge (Math_min (Fin 100) a) (Fin 0)"
  using assms by (cases a) auto

lemma max_0_id:
  assumes "js_ge a (Fin 0)"
  shows "Math_max (Fin 0) a = a"
  using assms by (cases a) auto

lemma pct_spec_ge0:
  assumes "\<not> js_lt (threshold_or_1 t) (Fin 0)"
  shows "js_ge (pct_spec n t) (Fin 0)"
proof -
  have q: "js_ge (js_div (Fin (real n)) (threshold_or_1 t)) (Fin 0)"
  proof (cases "threshold_or_1 t")
    case (Fin y)
    with assms threshold_or_1_nonzero [of t] have "0 < y" by simp
    then show ?thesis unfolding Fin by (rule div_ge0)
  qed (use assms threshold_or_1_nonzero [of t] in simp_all)
  show ?thesis
    unfolding pct_spec_def
    by (intro min_100_ge0 round_ge0 mul_100_ge0 q)
qed

lemma pct_spec_not_NaN: "pct_spec n t \<noteq> NaN"
proof -
  have "js_div (Fin (real n)) (threshold_or_1 t) \<noteq> NaN"
    using threshold_or_1_nonzero [of t] by (intro div_not_NaN) simp_all
  then have "Math_round (js_mul (js_div (Fin (real n)) (threshold_or_1 t)) (Fin 100)) \<noteq> NaN"
    by (intro round_not_NaN mul_100_not_NaN)
  then show ?thesis unfolding pct_spec_def
    by (cases "Math_round (js_mul (js_div (Fin (real n)) (threshold_or_1 t)) (Fin 100))")
      simp_all
qed

lemma pct_range:
  assumes "number_or_absent t"
  shows "\<exists>z. ProgressBar_pct (JNum (Fin (real n))) t = Fin z \<and> 0 \<le> z \<and> z \<le> 100"
proof -
  define m where "m = Math_round (js_mul (js_div (Fin (real n)) (threshold_or_1 t)) (Fin 100))"
  have "js_div (Fin (real n)) (threshold_or_1 t) \<noteq> NaN"
    using threshold_or_1_nonzero [of t] by (intro div_not_NaN) simp_all
  then have "m \<noteq> NaN" unfolding m_def by (intro round_not_NaN mul_100_not_NaN)
  then have "\<exists>z. Math_max (Fin 0) (Math_min (Fin 100) m) = Fin z \<and> 0 \<le> z \<and> z \<le> 100"
    by (rule clamp_range)
  then show ?thesis
    using assms by (simp add: pct_code_spec pct_spec_def m_def)
qed

lemma pct_zero:
  assumes "number_or_absent t"
  shows "ProgressBar_pct (JNum (Fin 0)) t = Fin 0"
proof -
  have "js_div (Fin 0) (threshold_or_1 t) = Fin 0"
    using threshold_or_1_nonzero [of t] by (cases "threshold_or_1 t") (simp_all add: rnd_0)
  then have "pct_spec 0 t = Fin 0" by (simp add: pct_spec_def rnd_0)
  then show ?thesis using pct_code_spec [OF assms, of 0] by simp
qed

text \<open>
  C5, as stated, fails. The percentage is not always
  \<open>min(100, round(activeCount / d * 100))\<close>: with 3 active participants and the
  threshold \<open>-6\<close> (a non-zero number) that formula gives \<open>-50\<close>, and \<open>ProgressBar\<close>
  gives 0, because of its \<open>Math.max(0, ...)\<close>.
\<close>

theorem C5_negative_threshold:
  "ProgressBar_pct (JNum (Fin (real 3))) (JNum (Fin (- 6))) = Fin 0
   \<and> pct_spec 3 (JNum (Fin (- 6))) = Fin (- 50)
   \<and> ProgressBar_pct (JNum (Fin (real 3))) (JNum (Fin (- 6))) \<noteq> pct_spec 3 (JNum (Fin (- 6)))"
  by (simp add: ProgressBar_pct_def pct_spec_def js_or_def threshold_or_1_def rnd_eval)

text \<open>
  C5, amended. For every non-negative \<open>activeCount\<close> and every threshold that is a
  number, a boolean, \<open>null\<close> or \<open>undefined\<close>, the displayed percentage equals
  \<open>max(0, min(100, round(activeCount / d * 100)))\<close>, the quotient and the product being
  those of doubles, where \<open>d\<close> is the threshold if it is a non-zero number and 1
  otherwise; \<open>d\<close> is what the code divides by, and it is never zero. Whenever the
  threshold is not negative this is \<open>min(100, round(activeCount / d * 100))\<close>. The
  percentage is a number between 0 and 100, never NaN, and with zero participants it is
  0.
\<close>

theorem C5_progress:
  assumes "number_or_absent t"
  shows "ProgressBar_pct (JNum (Fin (real n))) t = Math_max (Fin 0) (pct_spec n t)
       \<and> Number (js_or t (JNum (Fin 1))) = threshold_or_1 t
       \<and> threshold_or_1 t \<noteq> Fin 0
       \<and> (\<not> js_lt (threshold_or_1 t) (Fin 0) \<longrightarrow>
            ProgressBar_pct (JNum (Fin (real n))) t = pct_spec n t)
       \<and> (\<exists>z. ProgressBar_pct (JNum (Fin (real n))) t = Fin z \<and> 0 \<le> z \<and> z \<le> 100)
       \<and> ProgressBar_pct (JNum (Fin 0)) t = Fin 0"
proof -
  have "ProgressBar_pct (JNum (Fin (real n))) t = pct_spec n t"
    if "\<not> js_lt (threshold_or_1 t) (Fin 0)"
    using pct_spec_ge0 [OF that, of n] by (simp add: pct_code_spec [OF assms] max_0_id)
  then show ?thesis
    using pct_code_spec [OF assms, of n] denominator_eq [OF assms]
      threshold_or_1_nonzero [of t] pct_range [OF assms, of n] pct_zero [OF assms]
    by blast
qed

theorem C5_progress_witness:
  "number_or_absent (JNum (Fin 6))
   \<and> \<not> js_lt (threshold_or_1 (JNum (Fin 6))) (Fin 0)
   \<and> ProgressBar_pct (JNum (Fin (real 3))) (JNum (Fin 6)) = Fin 50
   \<and> number_or_absent (JNum (Fin 40))
   \<and> \<not> js_lt (threshold_or_1 (JNum (Fin 40))) (Fin 0)
   \<and> ProgressBar_pct (JNum (Fin (real 23))) (JNum (Fin 40)) = Fin 57
   \<and> number_or_absent JUndefined
   \<and> \<not> js_lt (threshold_or_1 JUndefined) (Fin 0)
   \<and> ProgressBar_pct (JNum (Fin (real 3))) JUndefined = Fin 100
   \<and> number_or_absent (JNum (Fin 0))
   \<and> \<not> js_lt (threshold_or_1 (JNum (Fin 0))) (Fin 0)
   \<and> ProgressBar_pct (JNum (Fin (real 3))) (JNum (Fin 0)) = Fin 100
   \<and> ProgressBar_pct (JNum (Fin 0)) (JNum (Fin 0)) = Fin 0"
proof -
  have a: "number_or_absent (JNum (Fin 6))" "number_or_absent (JNum (Fin 40))"
    "number_or_absent JUndefined" "number_or_absent (JNum (Fin 0))"
    by (simp_all add: number_or_absent_def)
  have "pct_spec 3 (JNum (Fin 6)) = Fin 50"
    by (simp add: pct_spec_def threshold_or_1_def rnd_eval)
  moreover have "pct_spec 23 (JNum (Fin 40)) = Fin 57"
    by (simp add: pct_spec_def threshold_or_1_def rnd_eval)
  moreover have "pct_spec 3 JUndefined = Fin 100"
    by (simp add: pct_spec_def threshold_or_1_def rnd_eval)
  moreover have "pct_spec 3 (JNum (Fin 0)) = Fin 100"
    by (simp add: pct_spec_def threshold_or_1_def rnd_eval)
  ultimately show ?thesis
    using a C5_progress [OF a(1), of 3] C5_progress [OF a(2), of 23]
      C5_progress [OF a(3), of 3] C5_progress [OF a(4), of 3]
    by (simp add: threshold_or_1_def)
qed

text \<open>
  A threshold stored as text is outside that statement: the text \<open>0\<close> is truthy and
  converts to 0, so the code divides by zero and, with no participant, shows NaN.
\<close>

lemma progress_text_threshold:
  "ProgressBar_pct (JNum (Fin 0)) (JStr ''0'') = NaN
   \<and> ProgressBar_pct (JNum (Fin 3)) (JStr ''6'') = Fin 50"
  by (simp add: ProgressBar_pct_def js_or_def StringToNumber_def trim_ws_def is_ws_def
      parse_non_decimal_def parse_unsigned_decimal_def parse_exponent_def is_digit_def
      digit_of_def digits_value_def signed_inf_def rnd_eval)

section \<open>The rate resolver against its description\<close>

text \<open>
  C6. \<open>mdtgRateOf\<close> is total: for every tier list and budget it returns the rate of the
  first tier, in the supplied order, with (\<open>max\<close> null and \<open>budget >= min\<close>) or
  (\<open>min <= budget < max\<close>), the budget being the coerced input; when no tier matches
  it returns the rate of the last tier, and 6.0 when the list is empty.
\<close>

theorem C6_rate_first_match:
  "mdtgRateOf b r = resolveRate_spec (budget_number b) (tiers (rules_or_default r))"
  by (simp add: mdtgRateOf_def resolveRate_spec_def rate_loop_find at_last_def
      split: option.splits)

theorem C6_rate_first_match_witness:
  "mdtgRateOf (JNum (Fin 150)) (Some gap_rules) = Fin 7
   \<and> mdtgRateOf (JNum (Fin 250)) (Some gap_rules) = Fin 5
   \<and> mdtgRateOf (JNum (Fin 250)) (Some (gap_rules\<lparr>tiers := []\<rparr>)) = Fin 6.0"
  using C6_rate_first_match [of "JNum (Fin 150)" "Some gap_rules"]
    C6_rate_first_match [of "JNum (Fin 250)" "Some gap_rules"]
    C6_rate_first_match [of "JNum (Fin 250)" "Some (gap_rules\<lparr>tiers := []\<rparr>)"]
  by (simp add: resolveRate_spec_def tier_matches_def gap_rules_def rules_or_default_def
      budget_number_Fin)

section \<open>CSV fields\<close>

lemma single_includes: "js_includes s [c] \<longleftrightarrow> c \<in> set s"
  by (induction s) auto

lemma safeCSV_alt_spec: "safeCSV_alt s = (if needs_quoting s then quoted s else s)"
  by (simp add: safeCSV_alt_def needs_quoting_def quoted_def single_includes
      replaceAll_char_def)

lemma safeCSV_tests:
  "safeCSV s =
     (if comma \<in> set s \<or> dquote \<in> set s \<or> js_includes s [backslash, CHR ''n'']
      then quoted s else s)"
  by (simp add: safeCSV_def quoted_def single_includes replaceAll_char_def)

lemma safeCSV_backslash_n:
  "safeCSV (''a'' @ [backslash] @ ''nb'') = [dquote] @ ''a'' @ [backslash] @ ''nb'' @ [dquote]
   \<and> \<not> needs_quoting (''a'' @ [backslash] @ ''nb'')"
  by (simp add: safeCSV_def needs_quoting_def comma_def dquote_def newline_def backslash_def
      replaceAll_char_def)

text \<open>
  C7. The claim holds of \<open>safeCSV\<close> in \<open>src/src/src/App.jsx\<close> (\<open>safeCSV_alt_spec\<close>).
  In \<open>src/src/App.jsx\<close> the field \<open>multi\<close>, newline, \<open>line\<close>, which contains a newline
  character and therefore has to be wrapped in double quotes, is returned unchanged,
  against the file's own self-test \<open>newline quoted\<close>; the other variant wraps it.
\<close>

theorem C7_safeCSV_newline_unquoted:
  "needs_quoting (''multi'' @ [newline] @ ''line'')
   \<and> safeCSV (''multi'' @ [newline] @ ''line'') = ''multi'' @ [newline] @ ''line''
   \<and> safeCSV (''multi'' @ [newline] @ ''line'') \<noteq> quoted (''multi'' @ [newline] @ ''line'')
   \<and> safeCSV_alt (''multi'' @ [newline] @ ''line'')
       = [dquote] @ ''multi'' @ [newline] @ ''line'' @ [dquote]"
  by (simp add: safeCSV_def safeCSV_alt_def needs_quoting_def quoted_def comma_def dquote_def
      newline_def backslash_def replaceAll_char_def)

section \<open>Backup import\<close>

text \<open>
  C8. When the imported text does not parse, or the parsed value has no truthy
  top-level \<open>events\<close>, the store is left as it was and one alert is raised; otherwise
  the store becomes the imported value and no alert is raised. Without a file nothing
  happens.
\<close>

theorem C8_importJSON:
  "(JSON_parse text = Inl msg \<longrightarrow>
      store_data (importJSON JSON_parse (Some text) st) = store_data st
      \<and> alerts (importJSON JSON_parse (Some text) st)
          = alerts st @ [Import_failed (SyntaxError_message msg)])
   \<and> (JSON_parse text = Inr obj \<and> \<not> has_truthy_events obj \<longrightarrow>
      store_data (importJSON JSON_parse (Some text) st) = store_data st
      \<and> alerts (importJSON JSON_parse (Some text) st)
          = alerts st @ [Import_failed Format_incorrect])
   \<and> (JSON_parse text = Inr obj \<and> has_truthy_events obj \<longrightarrow>
      store_data (importJSON JSON_parse (Some text) st) = obj
      \<and> alerts (importJSON JSON_parse (Some text) st) = alerts st)
   \<and> importJSON JSON_parse None st = st"
  by (simp add: importJSON_def onload_def Let_def)

theorem C8_importJSON_witness:
  "sample_parse ''garbage'' = Inl ''Unexpected token''
   \<and> store_data (importJSON sample_parse (Some ''garbage'') sample_state)
       = store_data sample_state
   \<and> alerts (importJSON sample_parse (Some ''garbage'') sample_state)
       = [Import_failed (SyntaxError_message ''Unexpected token'')]
   \<and> sample_parse ''empty'' = Inr (JsObject [])
   \<and> \<not> has_truthy_events (JsObject [])
   \<and> store_data (importJSON sample_parse (Some ''empty'') sample_state)
       = store_data sample_state
   \<and> alerts (importJSON sample_parse (Some ''empty'') sample_state)
       = [Import_failed Format_incorrect]
   \<and> has_truthy_events (JsObject [(''events'', JsArray []), (''selectedEventId'', JsNull)])
   \<and> store_data (importJSON sample_parse (Some ''backup'') sample_state)
       = JsObject [(''events'', JsArray []), (''selectedEventId'', JsNull)]
   \<and> alerts (importJSON sample_parse (Some ''backup'') sample_state) = []"
proof -
  have g: "sample_parse ''garbage'' = Inl ''Unexpected token''"
    by (simp add: sample_parse_def)
  have e: "sample_parse ''empty'' = Inr (JsObject [])"
    by (simp add: sample_parse_def)
  have b: "sample_parse ''backup''
           = Inr (JsObject [(''events'', JsArray []), (''selectedEventId'', JsNull)])"
    by (simp add: sample_parse_def)
  have a: "alerts sample_state = []"
    by (simp add: sample_state_def)
  show ?thesis
    using g e b a
      C8_importJSON [of sample_parse "''garbage''" "''Unexpected token''" sample_state
        "JsObject []"]
      C8_importJSON [of sample_parse "''empty''" "[]" sample_state "JsObject []"]
      C8_importJSON [of sample_parse "''backup''" "[]" sample_state
        "JsObject [(''events'', JsArray []), (''selectedEventId'', JsNull)]"]
    by (simp add: has_truthy_events_def)
qed

section \<open>Event deletion\<close>

text \<open>
  C9. \<open>removeEvent(id)\<close> leaves the event list with every event of that id removed,
  the others in their order, and sets \<open>selectedEventId\<close> to the id of the first
  remaining event, or null when none remains. The previous selection plays no part: the
  reassignment happens on every deletion.
\<close>

theorem C9_removeEvent:
  "events (removeEvent i d) = filter (\<lambda>e. e_id e \<noteq> i) (events d)
   \<and> selectedEventId (removeEvent i d)
       = (case filter (\<lambda>e. e_id e \<noteq> i) (events d) of
            [] \<Rightarrow> None
          | e # es \<Rightarrow> Some (e_id e))
   \<and> (\<forall>e \<in> set (events (removeEvent i d)). e_id e \<noteq> i)
   \<and> removeEvent i (d\<lparr>selectedEventId := s\<rparr>) = removeEvent i d"
  by (simp add: removeEvent_def Let_def index0_def split: list.splits)

theorem C9_removeEvent_witness:
  "selectedEventId scenario_store = Some ''e3''
   \<and> map e_id (events (removeEvent ''e2'' scenario_store)) = [''e1'', ''e3'']
   \<and> selectedEventId (removeEvent ''e2'' scenario_store) = Some ''e1''
   \<and> events (removeEvent ''e1'' (scenario_store\<lparr>events := [scenario_event]\<rparr>)) = []
   \<and> selectedEventId (removeEvent ''e1'' (scenario_store\<lparr>events := [scenario_event]\<rparr>)) = None"
  using C9_removeEvent [of "''e2''" scenario_store None]
    C9_removeEvent [of "''e1''" "scenario_store\<lparr>events := [scenario_event]\<rparr>" None]
  by (simp add: scenario_store_def scenario_event_def)

section \<open>The two variants agree on the policy functions\<close>

lemma rate_loop_alt_eq: "rate_loop_alt n ts = rate_loop n ts"
  by (induction ts) (auto split: option.splits)

lemma default_alt: "DEFAULT_MDTG_RULES_alt = DEFAULT_MDTG_RULES"
  by (simp add: DEFAULT_MDTG_RULES_alt_def DEFAULT_MDTG_RULES_def)

lemma rate_alt: "mdtgRateOf_alt b r = mdtgRateOf b r"
  unfolding mdtgRateOf_alt_def mdtgRateOf_def default_alt rules_or_default_def
    budget_number_def rate_loop_alt_eq
  by simp

lemma prepay_alt: "mdtgPrepayOf_alt b r = mdtgPrepayOf b r"
  unfolding mdtgPrepayOf_alt_def mdtgPrepayOf_def default_alt rules_or_default_def
    budget_number_def
  by simp

lemma stats_alt: "calcStats_alt e = calcStats e"
  by (simp add: calcStats_alt_def calcStats_def prepay_alt budget_number_def)

text \<open>
  C10. \<open>mdtgRateOf\<close>, \<open>mdtgPrepayOf\<close> and \<open>calcStats\<close> of \<open>src/src/src/App.jsx\<close> return,
  for every budget, rules argument and event, what those of \<open>src/src/App.jsx\<close> return.
\<close>

theorem C10_variants_agree:
  "mdtgRateOf_alt b r = mdtgRateOf b r
   \<and> mdtgPrepayOf_alt b r = mdtgPrepayOf b r
   \<and> calcStats_alt e = calcStats e"
  by (simp add: rate_alt prepay_alt stats_alt)

theorem C10_variants_agree_witness:
  "mdtgRateOf_alt (JNum (Fin 400)) None = lit 6.3
   \<and> mdtgPrepayOf_alt (JNum (Fin 400)) None = \<lparr> prepay_type = ''deposit'', ratio = Fin 0.5 \<rparr>
   \<and> activeCount (calcStats_alt scenario_event) = 2"
  using C10_variants_agree [of "JNum (Fin 400)" None scenario_event]
  by (simp add: rate_default_Fin prepay_default_Fin rules_or_default_def calcStats_def
      scenario_event_def scenario_participant_def)

end
